theory Spec2Isabelle
  imports Complex_Main
begin

section \<open>Hill-climbing simulation core: data model\<close>

text \<open>
  Shallow embedding of the simulation core of \<^verbatim>\<open>work_folder/script.js\<close>.
  JavaScript numbers are modelled as mathematical reals (no rounding, no NaN, no
  infinities); the script's global variables are the fields of one record \<open>game\<close>
  that every operation takes and returns. \<^verbatim>\<open>Math.random()\<close> reads the next element
  of a stream of draws carried in the state, \<^verbatim>\<open>Date.now()\<close> is an argument of the
  frame. Canvas drawing and DOM updates are left out, except the text written to the
  \<^verbatim>\<open>gameOverReason\<close> element, which is the only record of why a run ended. The
  canvas size is a pair of fields that no operation of the simulation writes.
\<close>

record segment =
  seg_x :: real
  seg_y :: real
  isOnBridge :: bool

record bridge =
  startX :: real
  endX :: real
  bridge_y :: real
  bridge_type :: string

record pickup =
  pick_x :: real
  pick_y :: real
  collected :: bool

record boost =
  boost_x :: real
  boost_y :: real
  boost_collected :: bool
  active :: bool

record particle =
  p_x :: real
  p_y :: real
  p_vx :: real
  p_vy :: real
  p_life :: real
  p_color :: string
  p_size :: real

record wheel =
  wheel_x :: real
  wheel_y :: real
  radius :: real

record vehicle =
  car_x :: real
  car_y :: real
  car_width :: real
  car_height :: real
  velocityX :: real
  velocityY :: real
  rotation :: real
  angularVelocity :: real
  onGround :: bool
  mass :: real
  rotationDamping :: real
  frontWheel :: wheel
  backWheel :: wheel

record controls =
  forward :: bool
  backward :: bool
  brake :: bool

datatype gameState = Start | Playing | GameOver

record game =
  canvas_width :: real
  canvas_height :: real
  lastFuelSpawnX :: real
  nextFuelSpawnPx :: real
  terrainNoisePrev :: real
  lastBridgeX :: real
  nextBridgeX :: real
  bridges :: "bridge list"
  boosts :: "boost list"
  boostActive :: bool
  boostEndTime :: real
  lastBoostSpawnX :: real
  nextBoostSpawnPx :: real
  currentBackgroundIndex :: real
  nextBackgroundIndex :: real
  backgroundTransition :: real
  currentLevel :: real
  particles :: "particle list"
  gameState :: gameState
  score :: real
  fuel :: real
  isGameOver :: bool
  car :: vehicle
  terrain :: "segment list"
  terrainOffset :: real
  fuelPickups :: "pickup list"
  coins :: "pickup list"
  coinCount :: real
  keys :: controls
  gameOverReason :: string
  rnd :: "nat \<Rightarrow> real"
  rndPos :: nat

section \<open>Constants\<close>

named_theorems game_consts \<open>the numeric constants of the script\<close>

definition GRAVITY :: real where [game_consts]: "GRAVITY = 4 / 10"
definition GROUND_FRICTION :: real where [game_consts]: "GROUND_FRICTION = 97 / 100"
definition AIR_RESISTANCE :: real where [game_consts]: "AIR_RESISTANCE = 99 / 100"
definition MAX_SPEED :: real where [game_consts]: "MAX_SPEED = 12"
definition ACCELERATION :: real where [game_consts]: "ACCELERATION = 35 / 100"
definition BRAKE_FORCE :: real where [game_consts]: "BRAKE_FORCE = 4 / 10"
definition REVERSE_SPEED :: real where [game_consts]: "REVERSE_SPEED = - 6"
definition INITIAL_FUEL :: real where [game_consts]: "INITIAL_FUEL = 100"
definition FUEL_CONSUMPTION :: real where [game_consts]: "FUEL_CONSUMPTION = 15 / 1000"
definition HILL_SEGMENT_WIDTH :: real where [game_consts]: "HILL_SEGMENT_WIDTH = 30"
definition MAX_FUEL :: real where [game_consts]: "MAX_FUEL = INITIAL_FUEL"
definition FUEL_PICKUP_AMOUNT :: real where [game_consts]: "FUEL_PICKUP_AMOUNT = 30"
definition COIN_PICKUP_CHANCE :: real where [game_consts]: "COIN_PICKUP_CHANCE = 1 / 10"
definition PICKUP_CLEAR_BEHIND :: real where [game_consts]: "PICKUP_CLEAR_BEHIND = 200"

definition TERRAIN_FREQUENCY :: real where [game_consts]: "TERRAIN_FREQUENCY = 12 / 1000"
definition TERRAIN_FREQUENCY_2 :: real where [game_consts]: "TERRAIN_FREQUENCY_2 = 25 / 1000"
definition TERRAIN_FREQUENCY_3 :: real where [game_consts]: "TERRAIN_FREQUENCY_3 = 6 / 1000"
definition TERRAIN_AMPLITUDE :: real where [game_consts]: "TERRAIN_AMPLITUDE = 70"
definition TERRAIN_AMPLITUDE_2 :: real where [game_consts]: "TERRAIN_AMPLITUDE_2 = 35"
definition TERRAIN_AMPLITUDE_3 :: real where [game_consts]: "TERRAIN_AMPLITUDE_3 = 50"
definition NOISE_AMPLITUDE :: real where [game_consts]: "NOISE_AMPLITUDE = 15"
definition NOISE_SMOOTH :: real where [game_consts]: "NOISE_SMOOTH = 9 / 10"

definition FUEL_SPAWN_MIN_M :: real where [game_consts]: "FUEL_SPAWN_MIN_M = 400"
definition FUEL_SPAWN_MAX_M :: real where [game_consts]: "FUEL_SPAWN_MAX_M = 600"
definition BRIDGE_MIN_DISTANCE :: real where [game_consts]: "BRIDGE_MIN_DISTANCE = 250"
definition BRIDGE_MAX_DISTANCE :: real where [game_consts]: "BRIDGE_MAX_DISTANCE = 400"
definition BRIDGE_LENGTH :: real where [game_consts]: "BRIDGE_LENGTH = 150"
definition BOOST_SPAWN_MIN :: real where [game_consts]: "BOOST_SPAWN_MIN = 200"
definition BOOST_SPAWN_MAX :: real where [game_consts]: "BOOST_SPAWN_MAX = 350"
definition BOOST_DURATION :: real where [game_consts]: "BOOST_DURATION = 3000"
definition BOOST_SPEED_MULTIPLIER :: real where [game_consts]: "BOOST_SPEED_MULTIPLIER = 18 / 10"
definition BACKGROUND_CHANGE_DISTANCE :: real where [game_consts]: "BACKGROUND_CHANGE_DISTANCE = 100"
definition BACKGROUNDS_length :: real where [game_consts]: "BACKGROUNDS_length = 5"
definition LEVEL_DISTANCE :: real where [game_consts]: "LEVEL_DISTANCE = 500"

text \<open>The three texts passed to \<^verbatim>\<open>endGame\<close>.\<close>

definition FELL :: string where "FELL = ''You fell into the abyss!''"
definition FLIPPED :: string where "FLIPPED = ''Your car flipped!''"
definition OUT_OF_FUEL :: string where "OUT_OF_FUEL = ''Out of fuel!''"

section \<open>JavaScript arithmetic used by the script\<close>

text \<open>\<^verbatim>\<open>a % b\<close>: the remainder of the division truncated towards zero, with the sign
  of the dividend.\<close>

definition js_trunc :: "real \<Rightarrow> int" where
  "js_trunc r = (if 0 \<le> r then \<lfloor>r\<rfloor> else \<lceil>r\<rceil>)"

definition js_rem :: "real \<Rightarrow> real \<Rightarrow> real" where
  "js_rem a b = a - b * of_int (js_trunc (a / b))"

text \<open>\<^verbatim>\<open>Math.atan2(y, x)\<close>, signed zeros aside.\<close>

definition atan2 :: "real \<Rightarrow> real \<Rightarrow> real" where
  "atan2 y x =
     (if 0 < x then arctan (y / x)
      else if x < 0 then (if 0 \<le> y then arctan (y / x) + pi else arctan (y / x) - pi)
      else if 0 < y then pi / 2
      else if y < 0 then - (pi / 2)
      else 0)"

text \<open>\<^verbatim>\<open>Math.random()\<close>: the current draw, and the state once it is consumed.\<close>

definition draw :: "game \<Rightarrow> real" where
  "draw s = rnd s (rndPos s)"

definition consume :: "game \<Rightarrow> game" where
  "consume s = s\<lparr>rndPos := Suc (rndPos s)\<rparr>"

section \<open>Terrain generation\<close>

text \<open>The four spawn decisions at the end of \<^verbatim>\<open>addTerrainSegment\<close>, in source order.
  \<open>x\<close> and \<open>y\<close> are the new sample's coordinates.\<close>

definition spawnBridge :: "real \<Rightarrow> real \<Rightarrow> bool \<Rightarrow> game \<Rightarrow> game" where
  "spawnBridge x y isOn s =
     (if lastBridgeX s + nextBridgeX s \<le> x \<and> \<not> isOn then
        (let ty = (if 1 / 2 < draw s then ''wooden'' else ''metal'');
             s1 = consume s;
             s2 = s1\<lparr>bridges := bridges s1 @
                    [\<lparr>startX = x, endX = x + BRIDGE_LENGTH, bridge_y = y, bridge_type = ty\<rparr>],
                  lastBridgeX := x\<rparr>
         in (consume s2)\<lparr>nextBridgeX :=
              (BRIDGE_MIN_DISTANCE + draw s2 * (BRIDGE_MAX_DISTANCE - BRIDGE_MIN_DISTANCE)) * 10\<rparr>)
      else s)"

definition spawnFuel :: "real \<Rightarrow> real \<Rightarrow> game \<Rightarrow> game" where
  "spawnFuel x y s =
     (if lastFuelSpawnX s + nextFuelSpawnPx s \<le> x then
        (consume s)\<lparr>fuelPickups := fuelPickups s @
             [\<lparr>pick_x = x + HILL_SEGMENT_WIDTH * (5 / 10), pick_y = y - 15, collected = False\<rparr>],
           lastFuelSpawnX := x,
           nextFuelSpawnPx :=
             (FUEL_SPAWN_MIN_M + draw s * (FUEL_SPAWN_MAX_M - FUEL_SPAWN_MIN_M)) * 10\<rparr>
      else s)"

definition spawnBoost :: "real \<Rightarrow> real \<Rightarrow> game \<Rightarrow> game" where
  "spawnBoost x y s =
     (if lastBoostSpawnX s + nextBoostSpawnPx s \<le> x then
        (consume s)\<lparr>boosts := boosts s @
             [\<lparr>boost_x = x + HILL_SEGMENT_WIDTH * (5 / 10), boost_y = y - 5,
               boost_collected = False, active = False\<rparr>],
           lastBoostSpawnX := x,
           nextBoostSpawnPx :=
             (BOOST_SPAWN_MIN + draw s * (BOOST_SPAWN_MAX - BOOST_SPAWN_MIN)) * 10\<rparr>
      else s)"

definition spawnCoin :: "real \<Rightarrow> real \<Rightarrow> game \<Rightarrow> game" where
  "spawnCoin x y s =
     (let s1 = consume s in
      if draw s < COIN_PICKUP_CHANCE * (1 - currentLevel s * (5 / 100)) then
        (consume s1)\<lparr>coins := coins s1 @
             [\<lparr>pick_x = x + HILL_SEGMENT_WIDTH * (6 / 10), pick_y = y - 35 - draw s1 * 20,
               collected = False\<rparr>]\<rparr>
      else s1)"

text \<open>\<^verbatim>\<open>addTerrainSegment(x, index)\<close>. \<^verbatim>\<open>bridges.some(..)\<close> holds exactly when
  \<^verbatim>\<open>bridges.find(..)\<close> returns a bridge, so one lookup decides both.\<close>

definition addTerrainSegment :: "real \<Rightarrow> real \<Rightarrow> game \<Rightarrow> game" where
  "addTerrainSegment x index s =
     (let baseHeight = canvas_height s * (6 / 10);
          phase = index + terrainOffset s / HILL_SEGMENT_WIDTH;
          found = find (\<lambda>b. startX b \<le> x \<and> x \<le> endX b) (bridges s);
          isOn = (found \<noteq> None);
          levelMultiplier = 1 + (currentLevel s - 1) * (15 / 100);
          wave1 = sin (phase * TERRAIN_FREQUENCY) * TERRAIN_AMPLITUDE * levelMultiplier;
          wave2 = sin (phase * TERRAIN_FREQUENCY_2) * TERRAIN_AMPLITUDE_2;
          wave3 = sin (phase * TERRAIN_FREQUENCY_3) * TERRAIN_AMPLITUDE_3;
          rawNoise = (draw s - 1 / 2) * NOISE_AMPLITUDE;
          noise = terrainNoisePrev s * NOISE_SMOOTH + rawNoise * (1 - NOISE_SMOOTH);
          y = (case found of
                 Some b \<Rightarrow> bridge_y b
               | None \<Rightarrow> baseHeight + wave1 + wave2 + wave3 + noise);
          s1 = (case found of
                  Some b \<Rightarrow> s
                | None \<Rightarrow> (consume s)\<lparr>terrainNoisePrev := noise\<rparr>);
          s2 = s1\<lparr>terrain := terrain s1 @ [\<lparr>seg_x = x, seg_y = y, isOnBridge = isOn\<rparr>]\<rparr>
      in spawnCoin x y (spawnBoost x y (spawnFuel x y (spawnBridge x y isOn s2))))"

text \<open>\<^verbatim>\<open>generateTerrain()\<close>: the buffers are cleared, the spawn cursors re-seeded, and
  \<^verbatim>\<open>numSegments\<close> samples drawn at \<open>x = i * HILL_SEGMENT_WIDTH\<close>.\<close>

definition numSegments :: "game \<Rightarrow> nat" where
  "numSegments s = nat (\<lceil>canvas_width s / HILL_SEGMENT_WIDTH\<rceil> + 10)"

definition generateTerrain :: "game \<Rightarrow> game" where
  "generateTerrain s =
     (let s1 = s\<lparr>terrain := [], bridges := [], fuelPickups := [], coins := [], boosts := [],
                 lastFuelSpawnX := terrainOffset s\<rparr>;
          s2 = (consume s1)\<lparr>nextFuelSpawnPx :=
                 (FUEL_SPAWN_MIN_M + draw s1 * (FUEL_SPAWN_MAX_M - FUEL_SPAWN_MIN_M)) * 10,
               lastBoostSpawnX := terrainOffset s1\<rparr>;
          s3 = (consume s2)\<lparr>nextBoostSpawnPx :=
                 (BOOST_SPAWN_MIN + draw s2 * (BOOST_SPAWN_MAX - BOOST_SPAWN_MIN)) * 10,
               lastBridgeX := terrainOffset s2 - 500\<rparr>;
          s4 = (consume s3)\<lparr>nextBridgeX :=
                 (BRIDGE_MIN_DISTANCE + draw s3 * (BRIDGE_MAX_DISTANCE - BRIDGE_MIN_DISTANCE)) * 10\<rparr>
      in fold (\<lambda>i. addTerrainSegment (real i * HILL_SEGMENT_WIDTH) (real i))
           [0 ..< numSegments s] s4)"

text \<open>The second loop of \<^verbatim>\<open>updateTerrain\<close>. Reading \<^verbatim>\<open>terrain[terrain.length - 1].x\<close>
  on an empty buffer throws a TypeError: the result \<open>None\<close>.\<close>

function extendTerrain :: "game \<Rightarrow> game option" where
  "extendTerrain s =
     (if terrain s = [] then None
      else if seg_x (last (terrain s)) < terrainOffset s + canvas_width s + 100 then
        extendTerrain
          (addTerrainSegment (seg_x (last (terrain s)) + HILL_SEGMENT_WIDTH)
             (real (length (terrain s))) s)
      else Some s)"
  by pat_completeness auto
termination
proof (relation "measure (\<lambda>s. nat \<lceil>(terrainOffset s + canvas_width s + 100
                                      - seg_x (last (terrain s))) / 30\<rceil>)")
  show "wf (measure (\<lambda>s. nat \<lceil>(terrainOffset s + canvas_width s + 100
                                      - seg_x (last (terrain s))) / 30\<rceil>))"
    by simp
next
  fix s :: game
  define x where "x = seg_x (last (terrain s)) + HILL_SEGMENT_WIDTH"
  define s' where "s' = addTerrainSegment x (real (length (terrain s))) s"
  assume lt: "seg_x (last (terrain s)) < terrainOffset s + canvas_width s + 100"
  have off: "terrainOffset s' = terrainOffset s" and w: "canvas_width s' = canvas_width s"
    and lst: "seg_x (last (terrain s')) = x"
    unfolding s'_def
    by (simp_all add: addTerrainSegment_def spawnCoin_def spawnBoost_def spawnFuel_def
          spawnBridge_def consume_def Let_def split: option.split)
  let ?d = "(terrainOffset s + canvas_width s + 100 - seg_x (last (terrain s))) / 30"
  have "0 < ?d" using lt by simp
  then have "nat \<lceil>?d - 1\<rceil> < nat \<lceil>?d\<rceil>" by linarith
  moreover have "(terrainOffset s' + canvas_width s' + 100 - seg_x (last (terrain s'))) / 30
                   = ?d - 1"
    by (simp add: off w lst x_def HILL_SEGMENT_WIDTH_def field_simps)
  ultimately show "(s', s) \<in> measure (\<lambda>s. nat \<lceil>(terrainOffset s + canvas_width s + 100
                                      - seg_x (last (terrain s))) / 30\<rceil>)"
    by (simp only: in_measure)
qed

text \<open>\<^verbatim>\<open>updateTerrain()\<close>: shift stale samples off the front, extend the buffer ahead,
  drop bridges left behind.\<close>

definition updateTerrain :: "game \<Rightarrow> game option" where
  "updateTerrain s =
     (case extendTerrain
             (s\<lparr>terrain := dropWhile (\<lambda>p. seg_x p < terrainOffset s - 100) (terrain s)\<rparr>) of
        None \<Rightarrow> None
      | Some s1 \<Rightarrow>
          Some (s1\<lparr>bridges := filter (\<lambda>b. terrainOffset s1 - 200 < endX b) (bridges s1)\<rparr>))"

section \<open>Terrain queries and wheel contact\<close>

text \<open>The scan of \<^verbatim>\<open>getTerrainHeightAt\<close> over adjacent pairs: the first bracketing pair
  decides, and \<open>base\<close> is returned when no pair brackets \<open>worldX\<close>.\<close>

fun heightScan :: "real \<Rightarrow> segment list \<Rightarrow> real \<Rightarrow> real" where
  "heightScan base (p1 # p2 # ps) worldX =
     (if seg_x p1 \<le> worldX \<and> worldX \<le> seg_x p2 then
        (let ratio = (worldX - seg_x p1) / (seg_x p2 - seg_x p1)
         in seg_y p1 + (seg_y p2 - seg_y p1) * ratio)
      else heightScan base (p2 # ps) worldX)"
| "heightScan base ps worldX = base"

definition getTerrainHeightAt :: "game \<Rightarrow> real \<Rightarrow> real" where
  "getTerrainHeightAt s worldX = heightScan (canvas_height s * (6 / 10)) (terrain s) worldX"

fun angleScan :: "segment list \<Rightarrow> real \<Rightarrow> real" where
  "angleScan (p1 # p2 # ps) worldX =
     (if seg_x p1 \<le> worldX \<and> worldX \<le> seg_x p2 then
        atan2 (seg_y p2 - seg_y p1) (seg_x p2 - seg_x p1)
      else angleScan (p2 # ps) worldX)"
| "angleScan ps worldX = 0"

definition getTerrainAngleAt :: "game \<Rightarrow> real \<Rightarrow> real" where
  "getTerrainAngleAt s worldX = angleScan (terrain s) worldX"

definition updateWheelPositions :: "game \<Rightarrow> game" where
  "updateWheelPositions s =
     (let c = car s;
          cosr = cos (rotation c);
          sinr = sin (rotation c);
          frontOffsetX = car_width c * (35 / 100);
          backOffsetX = - car_width c * (35 / 100)
      in s\<lparr>car := c\<lparr>
           frontWheel := (frontWheel c)\<lparr>wheel_x := car_x c + frontOffsetX * cosr,
                                        wheel_y := car_y c + frontOffsetX * sinr + car_height c / 2\<rparr>,
           backWheel := (backWheel c)\<lparr>wheel_x := car_x c + backOffsetX * cosr,
                                      wheel_y := car_y c + backOffsetX * sinr + car_height c / 2\<rparr>\<rparr>\<rparr>)"

text \<open>\<^verbatim>\<open>checkWheelCollision(wheel)\<close>: \<open>Some (terrainY, penetration)\<close> for a contact,
  \<open>None\<close> for \<^verbatim>\<open>{ collision: false }\<close>.\<close>

definition checkWheelCollision :: "game \<Rightarrow> wheel \<Rightarrow> (real \<times> real) option" where
  "checkWheelCollision s w =
     (let worldX = wheel_x w + terrainOffset s;
          terrainY = getTerrainHeightAt s worldX
      in if terrainY \<le> wheel_y w + radius w
         then Some (terrainY, (wheel_y w + radius w) - terrainY)
         else None)"

section \<open>Run state transitions\<close>

text \<open>\<^verbatim>\<open>endGame(reason)\<close>: a no-op unless the run is being played.\<close>

definition endGame :: "string \<Rightarrow> game \<Rightarrow> game" where
  "endGame reason s =
     (if gameState s \<noteq> Playing then s
      else s\<lparr>gameState := GameOver, gameOverReason := reason\<rparr>)"

section \<open>Physics update\<close>

definition currentMaxSpeed :: "game \<Rightarrow> real" where
  "currentMaxSpeed s = (if boostActive s then MAX_SPEED * BOOST_SPEED_MULTIPLIER else MAX_SPEED)"

definition currentAcceleration :: "game \<Rightarrow> real" where
  "currentAcceleration s = (if boostActive s then ACCELERATION * (15 / 10) else ACCELERATION)"

text \<open>\<^verbatim>\<open>updatePhysics\<close> is one straight-line function in the script; it is cut here into
  its consecutive blocks, composed in source order by \<open>updatePhysics\<close> below.\<close>

text \<open>Apply controls: forward, backward, brake.\<close>

definition applyControls :: "game \<Rightarrow> game" where
  "applyControls s =
     (let s1 = (if forward (keys s) \<and> 0 < fuel s then
                  (let f = fuel s - FUEL_CONSUMPTION
                   in s\<lparr>car := (car s)\<lparr>velocityX := velocityX (car s) + currentAcceleration s\<rparr>,
                        fuel := (if f < 0 then 0 else f)\<rparr>)
                else s);
          s2 = (if backward (keys s1) then
                  s1\<lparr>car := (car s1)\<lparr>velocityX := velocityX (car s1) - ACCELERATION * (8 / 10)\<rparr>\<rparr>
                else s1)
      in if brake (keys s2) then
           s2\<lparr>car := (car s2)\<lparr>velocityX := velocityX (car s2) * (1 - BRAKE_FORCE)\<rparr>\<rparr>
         else s2)"

text \<open>Limit speeds.\<close>

definition limitSpeeds :: "game \<Rightarrow> game" where
  "limitSpeeds s =
     (let s1 = (if currentMaxSpeed s < velocityX (car s) then
                  s\<lparr>car := (car s)\<lparr>velocityX := currentMaxSpeed s\<rparr>\<rparr>
                else s)
      in if velocityX (car s1) < REVERSE_SPEED then
           s1\<lparr>car := (car s1)\<lparr>velocityX := REVERSE_SPEED\<rparr>\<rparr>
         else s1)"

text \<open>Apply gravity.\<close>

definition applyGravity :: "game \<Rightarrow> game" where
  "applyGravity s = s\<lparr>car := (car s)\<lparr>velocityY := velocityY (car s) + GRAVITY\<rparr>\<rparr>"

text \<open>The grounded branch: rotation eases towards the slope, the car is put on the
  surface, friction and slope act on the horizontal speed.\<close>

definition groundedStep :: "(real \<times> real) option \<Rightarrow> (real \<times> real) option \<Rightarrow> game \<Rightarrow> game" where
  "groundedStep frontCollision backCollision s =
     (let c = car s;
          worldX = car_x c + terrainOffset s;
          terrainAngle = getTerrainAngleAt s worldX;
          targetRotation = terrainAngle;
          rotationDiff = targetRotation - rotation c;
          c1 = c\<lparr>rotation := rotation c + rotationDiff * (15 / 100)\<rparr>;
          c2 = (case (frontCollision, backCollision) of
                  (Some (fy, fp), Some (by, bp)) \<Rightarrow>
                    c1\<lparr>car_y := (fy + by) / 2 - car_height c1 / 2 - radius (frontWheel c1)\<rparr>
                | (Some (fy, fp), None) \<Rightarrow>
                    c1\<lparr>car_y := fy - car_height c1 / 2 - radius (frontWheel c1)\<rparr>
                | (None, Some (by, bp)) \<Rightarrow>
                    c1\<lparr>car_y := by - car_height c1 / 2 - radius (backWheel c1)\<rparr>
                | (None, None) \<Rightarrow> c1);
          c3 = c2\<lparr>velocityX := velocityX c2 * GROUND_FRICTION, velocityY := 0\<rparr>;
          slopeInfluence = sin terrainAngle * (25 / 100);
          c4 = c3\<lparr>velocityX := velocityX c3 + slopeInfluence\<rparr>
      in s\<lparr>car := c4\<lparr>angularVelocity := angularVelocity c4 * rotationDamping c4\<rparr>\<rparr>)"

text \<open>The airborne branch.\<close>

definition airborneStep :: "game \<Rightarrow> game" where
  "airborneStep s =
     (let c = car s;
          c1 = c\<lparr>velocityX := velocityX c * AIR_RESISTANCE\<rparr>;
          c2 = c1\<lparr>rotation := rotation c1 + angularVelocity c1\<rparr>;
          c3 = c2\<lparr>angularVelocity := angularVelocity c2 * (96 / 100)\<rparr>
      in s\<lparr>car := c3\<lparr>angularVelocity := angularVelocity c3 + velocityX c3 * (8 / 10000)\<rparr>\<rparr>)"

text \<open>Both wheel tests, the \<^verbatim>\<open>onGround\<close> flag and the branch it selects.\<close>

definition resolveContact :: "game \<Rightarrow> game" where
  "resolveContact s =
     (let frontCollision = checkWheelCollision s (frontWheel (car s));
          backCollision = checkWheelCollision s (backWheel (car s));
          s1 = s\<lparr>car := (car s)\<lparr>onGround := (frontCollision \<noteq> None \<or> backCollision \<noteq> None)\<rparr>\<rparr>
      in if onGround (car s1) then groundedStep frontCollision backCollision s1
         else airborneStep s1)"

text \<open>Integrate the position.\<close>

definition integratePosition :: "game \<Rightarrow> game" where
  "integratePosition s =
     s\<lparr>car := (car s)\<lparr>car_x := car_x (car s) + velocityX (car s),
                      car_y := car_y (car s) + velocityY (car s)\<rparr>\<rparr>"

text \<open>Scroll terrain, then keep the car off the left edge.\<close>

definition scrollTerrain :: "game \<Rightarrow> game" where
  "scrollTerrain s =
     (if canvas_width s * (4 / 10) < car_x (car s) then
        (let scroll = car_x (car s) - canvas_width s * (4 / 10)
         in s\<lparr>terrainOffset := terrainOffset s + scroll,
              car := (car s)\<lparr>car_x := canvas_width s * (4 / 10)\<rparr>,
              score := score s + scroll / 10\<rparr>)
      else s)"

definition clampRear :: "game \<Rightarrow> game" where
  "clampRear s =
     (if car_x (car s) < 50 then
        s\<lparr>car := (car s)\<lparr>car_x := 50, velocityX := max 0 (velocityX (car s))\<rparr>\<rparr>
      else s)"

text \<open>The three terminal tests, in source order.\<close>

definition normalizedRotation :: "real \<Rightarrow> real" where
  "normalizedRotation r = js_rem (js_rem r (pi * 2) + pi * 2) (pi * 2)"

definition fellCond :: "game \<Rightarrow> bool" where
  "fellCond s = (canvas_height s + 100 < car_y (car s))"

definition flipCond :: "game \<Rightarrow> bool" where
  "flipCond s =
     (pi * (7 / 10) < normalizedRotation (rotation (car s)) \<and>
      normalizedRotation (rotation (car s)) < pi * (13 / 10))"

definition fuelOutCond :: "game \<Rightarrow> bool" where
  "fuelOutCond s =
     (fuel s \<le> 0 \<and> velocityX (car s) < 1 / 10 \<and> - (1 / 10) < velocityX (car s))"

definition terminalChecks :: "game \<Rightarrow> game" where
  "terminalChecks s =
     (let s1 = (if fellCond s then endGame FELL s else s);
          s2 = (if flipCond s1 then endGame FLIPPED s1 else s1)
      in if fuelOutCond s2 then endGame OUT_OF_FUEL s2 else s2)"

text \<open>Everything \<^verbatim>\<open>updatePhysics\<close> does before its terminal tests, then the whole of it.\<close>

definition moveCar :: "game \<Rightarrow> game" where
  "moveCar s =
     clampRear (scrollTerrain (integratePosition (resolveContact
       (updateWheelPositions (applyGravity (limitSpeeds (applyControls s)))))))"

definition updatePhysics :: "game \<Rightarrow> game" where
  "updatePhysics s = terminalChecks (moveCar s)"

section \<open>Pickups, boost, particles\<close>

text \<open>One iteration of the loop of \<^verbatim>\<open>createParticles\<close>: three draws, in the order the
  object literal evaluates them.\<close>

definition pushParticle :: "real \<Rightarrow> real \<Rightarrow> string \<Rightarrow> game \<Rightarrow> game" where
  "pushParticle x y color s =
     (let s1 = consume s; s2 = consume s1; s3 = consume s2
      in s3\<lparr>particles := particles s @
           [\<lparr>p_x = x, p_y = y, p_vx = (draw s - 1 / 2) * 4, p_vy = (draw s1 - 1 / 2) * 4 - 2,
             p_life = 1, p_color = color, p_size = draw s2 * 4 + 2\<rparr>]\<rparr>)"

fun createParticles :: "real \<Rightarrow> real \<Rightarrow> string \<Rightarrow> nat \<Rightarrow> game \<Rightarrow> game" where
  "createParticles x y color 0 s = s"
| "createParticles x y color (Suc n) s = createParticles x y color n (pushParticle x y color s)"

definition activateBoost :: "real \<Rightarrow> game \<Rightarrow> game" where
  "activateBoost now s = s\<lparr>boostActive := True, boostEndTime := now + BOOST_DURATION\<rparr>"

text \<open>The proximity test shared by the three loops of \<^verbatim>\<open>checkPickups\<close>.\<close>

definition withinReach :: "real \<Rightarrow> real \<Rightarrow> real \<Rightarrow> real \<Rightarrow> real \<Rightarrow> bool" where
  "withinReach carWorldX carWorldY reach px py =
     (let dx = px - carWorldX; dy = py - carWorldY
      in sqrt (dx * dx + dy * dy) < reach)"

text \<open>The bodies of the three loops, at index \<open>i\<close>; the arrays are mutated in place.\<close>

definition fuelStep :: "real \<Rightarrow> real \<Rightarrow> real \<Rightarrow> nat \<Rightarrow> game \<Rightarrow> game" where
  "fuelStep carWorldX carWorldY carRadius i s =
     (let p = fuelPickups s ! i in
      if collected p then s
      else if withinReach carWorldX carWorldY (carRadius + 10) (pick_x p) (pick_y p) then
        createParticles (pick_x p - terrainOffset s) (pick_y p) ''#f4a261'' 8
          (s\<lparr>fuelPickups := (fuelPickups s)[i := p\<lparr>collected := True\<rparr>],
             fuel := min MAX_FUEL (fuel s + FUEL_PICKUP_AMOUNT)\<rparr>)
      else s)"

definition coinStep :: "real \<Rightarrow> real \<Rightarrow> real \<Rightarrow> nat \<Rightarrow> game \<Rightarrow> game" where
  "coinStep carWorldX carWorldY carRadius i s =
     (let c = coins s ! i in
      if collected c then s
      else if withinReach carWorldX carWorldY (carRadius + 10) (pick_x c) (pick_y c) then
        createParticles (pick_x c - terrainOffset s) (pick_y c) ''#FFD700'' 10
          (s\<lparr>coins := (coins s)[i := c\<lparr>collected := True\<rparr>],
             coinCount := coinCount s + 1\<rparr>)
      else s)"

definition boostStep :: "real \<Rightarrow> real \<Rightarrow> real \<Rightarrow> real \<Rightarrow> nat \<Rightarrow> game \<Rightarrow> game" where
  "boostStep now carWorldX carWorldY carRadius i s =
     (let b = boosts s ! i in
      if boost_collected b then s
      else if withinReach carWorldX carWorldY (carRadius + 15) (boost_x b) (boost_y b) then
        createParticles (boost_x b - terrainOffset s) (boost_y b) ''#FFD93D'' 15
          (activateBoost now (s\<lparr>boosts := (boosts s)[i := b\<lparr>boost_collected := True\<rparr>]\<rparr>))
      else s)"

text \<open>\<^verbatim>\<open>checkPickups()\<close>: each loop runs over the indices of its array (the loops never
  change an array's length), then the three arrays are pruned.\<close>

definition checkPickups :: "real \<Rightarrow> game \<Rightarrow> game" where
  "checkPickups now s =
     (let carWorldX = car_x (car s) + terrainOffset s;
          carWorldY = car_y (car s);
          carRadius = max (car_width (car s)) (car_height (car s)) * (6 / 10);
          s1 = fold (fuelStep carWorldX carWorldY carRadius) [0 ..< length (fuelPickups s)] s;
          s2 = fold (coinStep carWorldX carWorldY carRadius) [0 ..< length (coins s1)] s1;
          s3 = fold (boostStep now carWorldX carWorldY carRadius) [0 ..< length (boosts s2)] s2
      in s3\<lparr>fuelPickups :=
             filter (\<lambda>p. \<not> collected p \<and> terrainOffset s3 - PICKUP_CLEAR_BEHIND < pick_x p)
               (fuelPickups s3),
           coins :=
             filter (\<lambda>c. \<not> collected c \<and> terrainOffset s3 - PICKUP_CLEAR_BEHIND < pick_x c)
               (coins s3),
           boosts :=
             filter (\<lambda>b. \<not> boost_collected b \<and> terrainOffset s3 - PICKUP_CLEAR_BEHIND < boost_x b)
               (boosts s3)\<rparr>)"

definition updateBoost :: "real \<Rightarrow> game \<Rightarrow> game" where
  "updateBoost now s =
     (if boostActive s then
        (let remaining = boostEndTime s - now
         in if remaining \<le> 0 then s\<lparr>boostActive := False\<rparr> else s)
      else s)"

text \<open>\<^verbatim>\<open>updateParticles()\<close> walks the array backwards and splices out the dead
  particles: every particle is advanced once, the survivors keep their order.\<close>

definition stepParticle :: "particle \<Rightarrow> particle" where
  "stepParticle p =
     p\<lparr>p_x := p_x p + p_vx p, p_y := p_y p + p_vy p, p_vy := p_vy p + 2 / 10,
       p_life := p_life p - 2 / 100\<rparr>"

definition updateParticles :: "game \<Rightarrow> game" where
  "updateParticles s =
     s\<lparr>particles := filter (\<lambda>p. \<not> p_life p \<le> 0) (map stepParticle (particles s))\<rparr>"

section \<open>Progression\<close>

definition updateLevel :: "game \<Rightarrow> game" where
  "updateLevel s =
     (let newLevel = of_int \<lfloor>score s / LEVEL_DISTANCE\<rfloor> + 1
      in if currentLevel s < newLevel then s\<lparr>currentLevel := newLevel\<rparr> else s)"

definition updateBackground :: "game \<Rightarrow> game" where
  "updateBackground s =
     (let targetIndex = js_rem (of_int \<lfloor>score s / BACKGROUND_CHANGE_DISTANCE\<rfloor>) BACKGROUNDS_length
      in if targetIndex \<noteq> currentBackgroundIndex s then
           (let s1 = s\<lparr>nextBackgroundIndex := targetIndex,
                       backgroundTransition := min 1 (backgroundTransition s + 1 / 100)\<rparr>
            in if 1 \<le> backgroundTransition s1 then
                 s1\<lparr>currentBackgroundIndex := nextBackgroundIndex s1, backgroundTransition := 0\<rparr>
               else s1)
         else s)"

section \<open>The frame and the start of a run\<close>

text \<open>\<^verbatim>\<open>gameLoop()\<close>, one frame: nothing happens unless the run is being played. The
  TypeError of \<open>updateTerrain\<close> aborts the frame (\<open>None\<close>). \<open>now\<close> is what
  \<^verbatim>\<open>Date.now()\<close> returns during the frame.\<close>

definition gameLoop :: "real \<Rightarrow> game \<Rightarrow> game option" where
  "gameLoop now s =
     (if gameState s \<noteq> Playing then Some s
      else (case updateTerrain (updatePhysics s) of
              None \<Rightarrow> None
            | Some s1 \<Rightarrow>
                Some (updateBackground (updateLevel (updateParticles
                  (updateBoost now (checkPickups now s1)))))))"

text \<open>A run of frames, one clock reading each; an aborted frame aborts the run.\<close>

fun frames :: "real list \<Rightarrow> game \<Rightarrow> game option" where
  "frames [] s = Some s"
| "frames (now # nows) s =
     (case gameLoop now s of None \<Rightarrow> None | Some s1 \<Rightarrow> frames nows s1)"

text \<open>Between two frames the input handlers set the level-triggered intent flags.\<close>

definition tick :: "controls \<times> real \<Rightarrow> game \<Rightarrow> game option" where
  "tick inp s = gameLoop (snd inp) (s\<lparr>keys := fst inp\<rparr>)"

fun ticks :: "(controls \<times> real) list \<Rightarrow> game \<Rightarrow> game option" where
  "ticks [] s = Some s"
| "ticks (inp # inps) s =
     (case tick inp s of None \<Rightarrow> None | Some s1 \<Rightarrow> ticks inps s1)"

text \<open>\<^verbatim>\<open>startGame()\<close>: the assignments before \<^verbatim>\<open>generateTerrain()\<close>, the terrain, and
  the first frame, which \<^verbatim>\<open>startGame\<close> runs itself.\<close>

definition resetRun :: "game \<Rightarrow> game" where
  "resetRun s =
     s\<lparr>gameState := Playing, score := 0, fuel := INITIAL_FUEL, terrainOffset := 0,
       currentLevel := 1, currentBackgroundIndex := 0, nextBackgroundIndex := 0,
       backgroundTransition := 0,
       car := (car s)\<lparr>car_x := 200, car_y := 300, velocityX := 0, velocityY := 0,
                      rotation := 0, angularVelocity := 0, onGround := False\<rparr>,
       keys := \<lparr>forward = False, backward = False, brake = False\<rparr>,
       fuelPickups := [], coins := [], boosts := [], coinCount := 0, terrainNoisePrev := 0,
       particles := [], boostActive := False\<rparr>"

definition startGame :: "real \<Rightarrow> game \<Rightarrow> game option" where
  "startGame now s = gameLoop now (generateTerrain (resetRun s))"

section \<open>The script's initial values\<close>

text \<open>The car literal and the global declarations of the script, for a canvas of the
  given size and a given stream of draws; the three spawn distances drawn while the
  script loads consume the first three draws.\<close>

definition initialCar :: vehicle where
  "initialCar =
     \<lparr>car_x = 200, car_y = 300, car_width = 55, car_height = 28, velocityX = 0, velocityY = 0,
      rotation = 0, angularVelocity = 0, onGround = False, mass = 25 / 10,
      rotationDamping = 88 / 100,
      frontWheel = \<lparr>wheel_x = 0, wheel_y = 0, radius = 9\<rparr>,
      backWheel = \<lparr>wheel_x = 0, wheel_y = 0, radius = 9\<rparr>\<rparr>"

definition initialGame :: "real \<Rightarrow> real \<Rightarrow> (nat \<Rightarrow> real) \<Rightarrow> game" where
  "initialGame w h r =
     \<lparr>canvas_width = w, canvas_height = h,
      lastFuelSpawnX = 0,
      nextFuelSpawnPx = (FUEL_SPAWN_MIN_M + r 0 * (FUEL_SPAWN_MAX_M - FUEL_SPAWN_MIN_M)) * 10,
      terrainNoisePrev = 0,
      lastBridgeX = - 500,
      nextBridgeX = (BRIDGE_MIN_DISTANCE + r 1 * (BRIDGE_MAX_DISTANCE - BRIDGE_MIN_DISTANCE)) * 10,
      bridges = [], boosts = [], boostActive = False, boostEndTime = 0,
      lastBoostSpawnX = 0,
      nextBoostSpawnPx = (BOOST_SPAWN_MIN + r 2 * (BOOST_SPAWN_MAX - BOOST_SPAWN_MIN)) * 10,
      currentBackgroundIndex = 0, nextBackgroundIndex = 1, backgroundTransition = 0,
      currentLevel = 1, particles = [], gameState = Start, score = 0, fuel = INITIAL_FUEL,
      isGameOver = False, car = initialCar, terrain = [], terrainOffset = 0,
      fuelPickups = [], coins = [],
      coinCount = 0, keys = \<lparr>forward = False, backward = False, brake = False\<rparr>,
      gameOverReason = [], rnd = r, rndPos = 3\<rparr>"

text \<open>A run in progress over a flat stretch of two samples that reaches past the
  leading edge: the state the concrete checks below start from.\<close>

definition flatRun :: game where
  "flatRun =
     (initialGame 1200 600 (\<lambda>i. 1 / 2))
       \<lparr>gameState := Playing,
        terrain := [\<lparr>seg_x = - 90, seg_y = 360, isOnBridge = False\<rparr>,
                    \<lparr>seg_x = 2010, seg_y = 360, isOnBridge = False\<rparr>]\<rparr>"

section \<open>Quantities and invariants used in the statements\<close>

text \<open>The horizontal speed once the controls and the speed limits have been applied, and
  the state in which the contact test is reached.\<close>

definition limitedSpeed :: "game \<Rightarrow> real" where
  "limitedSpeed s =
     max REVERSE_SPEED (min (currentMaxSpeed s) (velocityX (car (applyControls s))))"

definition beforeContact :: "game \<Rightarrow> game" where
  "beforeContact s = updateWheelPositions (applyGravity (limitSpeeds (applyControls s)))"

text \<open>The horizontal speed after contact resolution; the rear clamp can only raise a
  negative speed to zero.\<close>

definition contactSpeed :: "game \<Rightarrow> real" where
  "contactSpeed s =
     (if onGround (car (moveCar s))
      then limitedSpeed s * GROUND_FRICTION
             + sin (getTerrainAngleAt s (car_x (car s) + terrainOffset s)) * (25 / 100)
      else limitedSpeed s * AIR_RESISTANCE)"



text \<open>What holds of the window between two ticks: the canvas has a width, the buffer
  is not empty and strictly ascending, it starts no further back than the trailing
  margin and reaches the leading margin, and the car is no further right of its anchor
  than the buffer reaches past the leading margin.\<close>

definition windowInv :: "game \<Rightarrow> bool" where
  "windowInv s \<longleftrightarrow>
     0 \<le> canvas_width s \<and> terrain s \<noteq> [] \<and> sorted_wrt (<) (map seg_x (terrain s)) \<and>
     list_all (\<lambda>p. terrainOffset s - 100 \<le> seg_x p) (terrain s) \<and>
     terrainOffset s + canvas_width s + 100 \<le> seg_x (last (terrain s)) \<and>
     car_x (car s) \<le> max (canvas_width s * (4 / 10)) 50
                      + (seg_x (last (terrain s)) - (terrainOffset s + canvas_width s + 100))"



section \<open>Concrete states\<close>

text \<open>No intent, and forward intent alone.\<close>

definition idle :: controls where
  "idle = \<lparr>forward = False, backward = False, brake = False\<rparr>"

definition pressForward :: controls where
  "pressForward = \<lparr>forward = True, backward = False, brake = False\<rparr>"

text \<open>A run over a flat stretch deeper than the abyss threshold, the car touching it
  with rotation \<open>\<pi>\<close> and an empty tank: all three terminal tests hold after one
  physics update.\<close>

definition deepRun :: game where
  "deepRun =
     (initialGame 1200 600 (\<lambda>i. 1 / 2))
       \<lparr>gameState := Playing,
        terrain := [\<lparr>seg_x = - 90, seg_y = 800, isOnBridge = False\<rparr>,
                    \<lparr>seg_x = 2010, seg_y = 800, isOnBridge = False\<rparr>],
        car := initialCar\<lparr>car_y := 790, rotation := pi\<rparr>,
        fuel := 0\<rparr>"

text \<open>A run at level 20 whose buffer ends one segment short of the leading margin,
  with one coin ahead.\<close>

definition lateRun :: game where
  "lateRun =
     (initialGame 1200 600 (\<lambda>i. 1 / 2))
       \<lparr>gameState := Playing, currentLevel := 20, score := 9500,
        terrain := [\<lparr>seg_x = - 90, seg_y = 360, isOnBridge = False\<rparr>,
                    \<lparr>seg_x = 1290, seg_y = 360, isOnBridge = False\<rparr>],
        coins := [\<lparr>pick_x = 1000, pick_y = 300, collected = False\<rparr>]\<rparr>"

text \<open>The flat run with forward intent held; the car starts in the air.\<close>

definition forwardAir :: game where
  "forwardAir = flatRun\<lparr>keys := \<lparr>forward = True, backward = False, brake = False\<rparr>\<rparr>"










section \<open>What each block of the physics update leaves alone\<close>

lemma applyControls_frame [simp]:
  "gameState (applyControls s) = gameState s"
  "gameOverReason (applyControls s) = gameOverReason s"
  "terrain (applyControls s) = terrain s"
  "terrainOffset (applyControls s) = terrainOffset s"
  "canvas_width (applyControls s) = canvas_width s"
  "canvas_height (applyControls s) = canvas_height s"
  "boostActive (applyControls s) = boostActive s"
  "keys (applyControls s) = keys s"
  "score (applyControls s) = score s"
  by (simp_all add: applyControls_def Let_def)

lemma applyControls_world [simp]:
  "bridges (applyControls s) = bridges s"
  "lastBridgeX (applyControls s) = lastBridgeX s"
  "nextBridgeX (applyControls s) = nextBridgeX s"
  "coins (applyControls s) = coins s"
  "fuelPickups (applyControls s) = fuelPickups s"
  "currentLevel (applyControls s) = currentLevel s"
  "rnd (applyControls s) = rnd s"
  by (simp_all add: applyControls_def Let_def)

lemma applyControls_car [simp]:
  "car_x (car (applyControls s)) = car_x (car s)"
  "car_y (car (applyControls s)) = car_y (car s)"
  "rotation (car (applyControls s)) = rotation (car s)"
  "angularVelocity (car (applyControls s)) = angularVelocity (car s)"
  "velocityY (car (applyControls s)) = velocityY (car s)"
  "car_width (car (applyControls s)) = car_width (car s)"
  "car_height (car (applyControls s)) = car_height (car s)"
  by (simp_all add: applyControls_def Let_def)

lemma limitSpeeds_frame [simp]:
  "gameState (limitSpeeds s) = gameState s"
  "gameOverReason (limitSpeeds s) = gameOverReason s"
  "terrain (limitSpeeds s) = terrain s"
  "terrainOffset (limitSpeeds s) = terrainOffset s"
  "canvas_width (limitSpeeds s) = canvas_width s"
  "canvas_height (limitSpeeds s) = canvas_height s"
  "boostActive (limitSpeeds s) = boostActive s"
  "keys (limitSpeeds s) = keys s"
  "score (limitSpeeds s) = score s"
  "fuel (limitSpeeds s) = fuel s"
  by (simp_all add: limitSpeeds_def Let_def)

lemma limitSpeeds_world [simp]:
  "bridges (limitSpeeds s) = bridges s"
  "lastBridgeX (limitSpeeds s) = lastBridgeX s"
  "nextBridgeX (limitSpeeds s) = nextBridgeX s"
  "coins (limitSpeeds s) = coins s"
  "fuelPickups (limitSpeeds s) = fuelPickups s"
  "currentLevel (limitSpeeds s) = currentLevel s"
  "rnd (limitSpeeds s) = rnd s"
  by (simp_all add: limitSpeeds_def Let_def)

lemma limitSpeeds_car [simp]:
  "car_x (car (limitSpeeds s)) = car_x (car s)"
  "car_y (car (limitSpeeds s)) = car_y (car s)"
  "rotation (car (limitSpeeds s)) = rotation (car s)"
  "angularVelocity (car (limitSpeeds s)) = angularVelocity (car s)"
  "velocityY (car (limitSpeeds s)) = velocityY (car s)"
  "car_width (car (limitSpeeds s)) = car_width (car s)"
  "car_height (car (limitSpeeds s)) = car_height (car s)"
  by (simp_all add: limitSpeeds_def Let_def)

lemma applyGravity_frame [simp]:
  "gameState (applyGravity s) = gameState s"
  "gameOverReason (applyGravity s) = gameOverReason s"
  "terrain (applyGravity s) = terrain s"
  "terrainOffset (applyGravity s) = terrainOffset s"
  "canvas_width (applyGravity s) = canvas_width s"
  "canvas_height (applyGravity s) = canvas_height s"
  "boostActive (applyGravity s) = boostActive s"
  "keys (applyGravity s) = keys s"
  "score (applyGravity s) = score s"
  "fuel (applyGravity s) = fuel s"
  by (simp_all add: applyGravity_def)

lemma applyGravity_world [simp]:
  "bridges (applyGravity s) = bridges s"
  "lastBridgeX (applyGravity s) = lastBridgeX s"
  "nextBridgeX (applyGravity s) = nextBridgeX s"
  "coins (applyGravity s) = coins s"
  "fuelPickups (applyGravity s) = fuelPickups s"
  "currentLevel (applyGravity s) = currentLevel s"
  "rnd (applyGravity s) = rnd s"
  by (simp_all add: applyGravity_def)

lemma applyGravity_car [simp]:
  "car_x (car (applyGravity s)) = car_x (car s)"
  "car_y (car (applyGravity s)) = car_y (car s)"
  "rotation (car (applyGravity s)) = rotation (car s)"
  "angularVelocity (car (applyGravity s)) = angularVelocity (car s)"
  "velocityX (car (applyGravity s)) = velocityX (car s)"
  "car_width (car (applyGravity s)) = car_width (car s)"
  "car_height (car (applyGravity s)) = car_height (car s)"
  by (simp_all add: applyGravity_def)

lemma updateWheelPositions_frame [simp]:
  "gameState (updateWheelPositions s) = gameState s"
  "gameOverReason (updateWheelPositions s) = gameOverReason s"
  "terrain (updateWheelPositions s) = terrain s"
  "terrainOffset (updateWheelPositions s) = terrainOffset s"
  "canvas_width (updateWheelPositions s) = canvas_width s"
  "canvas_height (updateWheelPositions s) = canvas_height s"
  "boostActive (updateWheelPositions s) = boostActive s"
  "keys (updateWheelPositions s) = keys s"
  "score (updateWheelPositions s) = score s"
  "fuel (updateWheelPositions s) = fuel s"
  by (simp_all add: updateWheelPositions_def Let_def)

lemma updateWheelPositions_world [simp]:
  "bridges (updateWheelPositions s) = bridges s"
  "lastBridgeX (updateWheelPositions s) = lastBridgeX s"
  "nextBridgeX (updateWheelPositions s) = nextBridgeX s"
  "coins (updateWheelPositions s) = coins s"
  "fuelPickups (updateWheelPositions s) = fuelPickups s"
  "currentLevel (updateWheelPositions s) = currentLevel s"
  "rnd (updateWheelPositions s) = rnd s"
  by (simp_all add: updateWheelPositions_def Let_def)

lemma updateWheelPositions_car [simp]:
  "car_x (car (updateWheelPositions s)) = car_x (car s)"
  "car_y (car (updateWheelPositions s)) = car_y (car s)"
  "rotation (car (updateWheelPositions s)) = rotation (car s)"
  "angularVelocity (car (updateWheelPositions s)) = angularVelocity (car s)"
  "velocityX (car (updateWheelPositions s)) = velocityX (car s)"
  "velocityY (car (updateWheelPositions s)) = velocityY (car s)"
  "car_width (car (updateWheelPositions s)) = car_width (car s)"
  "car_height (car (updateWheelPositions s)) = car_height (car s)"
  by (simp_all add: updateWheelPositions_def Let_def)

lemma groundedStep_frame [simp]:
  "gameState (groundedStep fc bc s) = gameState s"
  "gameOverReason (groundedStep fc bc s) = gameOverReason s"
  "terrain (groundedStep fc bc s) = terrain s"
  "canvas_width (groundedStep fc bc s) = canvas_width s"
  "canvas_height (groundedStep fc bc s) = canvas_height s"
  "boostActive (groundedStep fc bc s) = boostActive s"
  "keys (groundedStep fc bc s) = keys s"
  "fuel (groundedStep fc bc s) = fuel s"
  "terrainOffset (groundedStep fc bc s) = terrainOffset s"
  "score (groundedStep fc bc s) = score s"
  by (simp_all add: groundedStep_def Let_def split: option.split prod.split)

lemma groundedStep_world [simp]:
  "bridges (groundedStep fc bc s) = bridges s"
  "lastBridgeX (groundedStep fc bc s) = lastBridgeX s"
  "nextBridgeX (groundedStep fc bc s) = nextBridgeX s"
  "coins (groundedStep fc bc s) = coins s"
  "fuelPickups (groundedStep fc bc s) = fuelPickups s"
  "currentLevel (groundedStep fc bc s) = currentLevel s"
  "rnd (groundedStep fc bc s) = rnd s"
  by (simp_all add: groundedStep_def Let_def split: option.split prod.split)

lemma airborneStep_frame [simp]:
  "gameState (airborneStep s) = gameState s"
  "gameOverReason (airborneStep s) = gameOverReason s"
  "terrain (airborneStep s) = terrain s"
  "canvas_width (airborneStep s) = canvas_width s"
  "canvas_height (airborneStep s) = canvas_height s"
  "boostActive (airborneStep s) = boostActive s"
  "keys (airborneStep s) = keys s"
  "fuel (airborneStep s) = fuel s"
  "terrainOffset (airborneStep s) = terrainOffset s"
  "score (airborneStep s) = score s"
  by (simp_all add: airborneStep_def Let_def split: option.split prod.split)

lemma airborneStep_world [simp]:
  "bridges (airborneStep s) = bridges s"
  "lastBridgeX (airborneStep s) = lastBridgeX s"
  "nextBridgeX (airborneStep s) = nextBridgeX s"
  "coins (airborneStep s) = coins s"
  "fuelPickups (airborneStep s) = fuelPickups s"
  "currentLevel (airborneStep s) = currentLevel s"
  "rnd (airborneStep s) = rnd s"
  by (simp_all add: airborneStep_def Let_def split: option.split prod.split)

lemma resolveContact_frame [simp]:
  "gameState (resolveContact s) = gameState s"
  "gameOverReason (resolveContact s) = gameOverReason s"
  "terrain (resolveContact s) = terrain s"
  "canvas_width (resolveContact s) = canvas_width s"
  "canvas_height (resolveContact s) = canvas_height s"
  "boostActive (resolveContact s) = boostActive s"
  "keys (resolveContact s) = keys s"
  "fuel (resolveContact s) = fuel s"
  "terrainOffset (resolveContact s) = terrainOffset s"
  "score (resolveContact s) = score s"
  by (simp_all add: resolveContact_def Let_def split: option.split prod.split)

lemma resolveContact_world [simp]:
  "bridges (resolveContact s) = bridges s"
  "lastBridgeX (resolveContact s) = lastBridgeX s"
  "nextBridgeX (resolveContact s) = nextBridgeX s"
  "coins (resolveContact s) = coins s"
  "fuelPickups (resolveContact s) = fuelPickups s"
  "currentLevel (resolveContact s) = currentLevel s"
  "rnd (resolveContact s) = rnd s"
  by (simp_all add: resolveContact_def Let_def split: option.split prod.split)

lemma integratePosition_frame [simp]:
  "gameState (integratePosition s) = gameState s"
  "gameOverReason (integratePosition s) = gameOverReason s"
  "terrain (integratePosition s) = terrain s"
  "canvas_width (integratePosition s) = canvas_width s"
  "canvas_height (integratePosition s) = canvas_height s"
  "boostActive (integratePosition s) = boostActive s"
  "keys (integratePosition s) = keys s"
  "fuel (integratePosition s) = fuel s"
  "terrainOffset (integratePosition s) = terrainOffset s"
  "score (integratePosition s) = score s"
  by (simp_all add: integratePosition_def Let_def split: option.split prod.split)

lemma integratePosition_world [simp]:
  "bridges (integratePosition s) = bridges s"
  "lastBridgeX (integratePosition s) = lastBridgeX s"
  "nextBridgeX (integratePosition s) = nextBridgeX s"
  "coins (integratePosition s) = coins s"
  "fuelPickups (integratePosition s) = fuelPickups s"
  "currentLevel (integratePosition s) = currentLevel s"
  "rnd (integratePosition s) = rnd s"
  by (simp_all add: integratePosition_def Let_def split: option.split prod.split)

lemma scrollTerrain_frame [simp]:
  "gameState (scrollTerrain s) = gameState s"
  "gameOverReason (scrollTerrain s) = gameOverReason s"
  "terrain (scrollTerrain s) = terrain s"
  "canvas_width (scrollTerrain s) = canvas_width s"
  "canvas_height (scrollTerrain s) = canvas_height s"
  "boostActive (scrollTerrain s) = boostActive s"
  "keys (scrollTerrain s) = keys s"
  "fuel (scrollTerrain s) = fuel s"
  by (simp_all add: scrollTerrain_def Let_def split: option.split prod.split)

lemma scrollTerrain_world [simp]:
  "bridges (scrollTerrain s) = bridges s"
  "lastBridgeX (scrollTerrain s) = lastBridgeX s"
  "nextBridgeX (scrollTerrain s) = nextBridgeX s"
  "coins (scrollTerrain s) = coins s"
  "fuelPickups (scrollTerrain s) = fuelPickups s"
  "currentLevel (scrollTerrain s) = currentLevel s"
  "rnd (scrollTerrain s) = rnd s"
  by (simp_all add: scrollTerrain_def Let_def split: option.split prod.split)

lemma clampRear_frame [simp]:
  "gameState (clampRear s) = gameState s"
  "gameOverReason (clampRear s) = gameOverReason s"
  "terrain (clampRear s) = terrain s"
  "canvas_width (clampRear s) = canvas_width s"
  "canvas_height (clampRear s) = canvas_height s"
  "boostActive (clampRear s) = boostActive s"
  "keys (clampRear s) = keys s"
  "fuel (clampRear s) = fuel s"
  "terrainOffset (clampRear s) = terrainOffset s"
  "score (clampRear s) = score s"
  by (simp_all add: clampRear_def Let_def split: option.split prod.split)

lemma clampRear_world [simp]:
  "bridges (clampRear s) = bridges s"
  "lastBridgeX (clampRear s) = lastBridgeX s"
  "nextBridgeX (clampRear s) = nextBridgeX s"
  "coins (clampRear s) = coins s"
  "fuelPickups (clampRear s) = fuelPickups s"
  "currentLevel (clampRear s) = currentLevel s"
  "rnd (clampRear s) = rnd s"
  by (simp_all add: clampRear_def Let_def split: option.split prod.split)

lemma moveCar_frame [simp]:
  "gameState (moveCar s) = gameState s"
  "gameOverReason (moveCar s) = gameOverReason s"
  "terrain (moveCar s) = terrain s"
  "canvas_width (moveCar s) = canvas_width s"
  "canvas_height (moveCar s) = canvas_height s"
  "boostActive (moveCar s) = boostActive s"
  "keys (moveCar s) = keys s"
  by (simp_all add: moveCar_def)

lemma moveCar_world [simp]:
  "bridges (moveCar s) = bridges s"
  "lastBridgeX (moveCar s) = lastBridgeX s"
  "nextBridgeX (moveCar s) = nextBridgeX s"
  "coins (moveCar s) = coins s"
  "fuelPickups (moveCar s) = fuelPickups s"
  "currentLevel (moveCar s) = currentLevel s"
  "rnd (moveCar s) = rnd s"
  by (simp_all add: moveCar_def)


lemma endGame_frame [simp]:
  "car (endGame reason s) = car s"
  "fuel (endGame reason s) = fuel s"
  "score (endGame reason s) = score s"
  "terrain (endGame reason s) = terrain s"
  "terrainOffset (endGame reason s) = terrainOffset s"
  "canvas_width (endGame reason s) = canvas_width s"
  "canvas_height (endGame reason s) = canvas_height s"
  "boostActive (endGame reason s) = boostActive s"
  "keys (endGame reason s) = keys s"
  by (simp_all add: endGame_def)

lemma endGame_world [simp]:
  "bridges (endGame reason s) = bridges s"
  "lastBridgeX (endGame reason s) = lastBridgeX s"
  "nextBridgeX (endGame reason s) = nextBridgeX s"
  "coins (endGame reason s) = coins s"
  "fuelPickups (endGame reason s) = fuelPickups s"
  "currentLevel (endGame reason s) = currentLevel s"
  "rnd (endGame reason s) = rnd s"
  by (simp_all add: endGame_def)

lemma endGame_conds [simp]:
  "fellCond (endGame reason s) = fellCond s"
  "flipCond (endGame reason s) = flipCond s"
  "fuelOutCond (endGame reason s) = fuelOutCond s"
  by (simp_all add: fellCond_def flipCond_def fuelOutCond_def)

lemma terminalChecks_frame [simp]:
  "car (terminalChecks s) = car s"
  "fuel (terminalChecks s) = fuel s"
  "score (terminalChecks s) = score s"
  "terrain (terminalChecks s) = terrain s"
  "terrainOffset (terminalChecks s) = terrainOffset s"
  "canvas_width (terminalChecks s) = canvas_width s"
  "canvas_height (terminalChecks s) = canvas_height s"
  "boostActive (terminalChecks s) = boostActive s"
  "keys (terminalChecks s) = keys s"
  by (simp_all add: terminalChecks_def Let_def)

lemma terminalChecks_world [simp]:
  "bridges (terminalChecks s) = bridges s"
  "lastBridgeX (terminalChecks s) = lastBridgeX s"
  "nextBridgeX (terminalChecks s) = nextBridgeX s"
  "coins (terminalChecks s) = coins s"
  "fuelPickups (terminalChecks s) = fuelPickups s"
  "currentLevel (terminalChecks s) = currentLevel s"
  "rnd (terminalChecks s) = rnd s"
  by (simp_all add: terminalChecks_def Let_def)

lemma endGame_playing: "gameState s = Playing \<Longrightarrow> endGame r s = s\<lparr>gameState := GameOver, gameOverReason := r\<rparr>"
  by (simp add: endGame_def)

lemma endGame_not_playing: "gameState s \<noteq> Playing \<Longrightarrow> endGame r s = s"
  by (simp add: endGame_def)

lemma conds_over [simp]:
  "fellCond (s\<lparr>gameState := g, gameOverReason := r\<rparr>) = fellCond s"
  "flipCond (s\<lparr>gameState := g, gameOverReason := r\<rparr>) = flipCond s"
  "fuelOutCond (s\<lparr>gameState := g, gameOverReason := r\<rparr>) = fuelOutCond s"
  by (simp_all add: fellCond_def flipCond_def fuelOutCond_def)

lemma terminalChecks_playing:
  assumes "gameState s = Playing"
  shows "terminalChecks s =
           (if fellCond s then s\<lparr>gameState := GameOver, gameOverReason := FELL\<rparr>
            else if flipCond s then s\<lparr>gameState := GameOver, gameOverReason := FLIPPED\<rparr>
            else if fuelOutCond s then s\<lparr>gameState := GameOver, gameOverReason := OUT_OF_FUEL\<rparr>
            else s)"
  using assms
  by (simp add: terminalChecks_def Let_def endGame_playing endGame_not_playing)

lemma terminalChecks_not_playing:
  "gameState s \<noteq> Playing \<Longrightarrow> terminalChecks s = s"
  by (simp add: terminalChecks_def Let_def endGame_not_playing)

section \<open>Remainder and rotation wrap\<close>




lemma js_rem_small: "0 \<le> a \<Longrightarrow> a < b \<Longrightarrow> js_rem a b = a"
proof -
  assume a: "0 \<le> a" "a < b"
  then have "0 \<le> a / b" "a / b < 1" by simp_all
  then have "\<lfloor>a / b\<rfloor> = 0" by linarith
  then show ?thesis using \<open>0 \<le> a / b\<close> by (simp add: js_rem_def js_trunc_def)
qed

lemma js_rem_shift: "0 \<le> a \<Longrightarrow> a < b \<Longrightarrow> js_rem (a + b) b = a"
proof -
  assume a: "0 \<le> a" "a < b"
  then have b: "0 < b" by simp
  then have e: "(a + b) / b = a / b + 1" by (simp add: field_simps)
  have "0 \<le> a / b" "a / b < 1" using a by simp_all
  then have "\<lfloor>a / b + 1\<rfloor> = 1" "0 \<le> a / b + 1" by linarith+
  then show ?thesis by (simp add: js_rem_def js_trunc_def e)
qed



lemma normalizedRotation_id: "0 \<le> r \<Longrightarrow> r < pi * 2 \<Longrightarrow> normalizedRotation r = r"
  by (simp add: normalizedRotation_def js_rem_small js_rem_shift)

lemma flipCond_direct:
  "0 \<le> rotation (car s) \<Longrightarrow> rotation (car s) < pi * 2 \<Longrightarrow>
   flipCond s \<longleftrightarrow> pi * (7 / 10) < rotation (car s) \<and> rotation (car s) < pi * (13 / 10)"
  by (simp add: flipCond_def normalizedRotation_id)

section \<open>Loops and the rest of the frame: what they leave alone\<close>

lemma fold_keeps:
  assumes "\<And>i t. g (f i t) = g t"
  shows "g (fold f xs s) = g s"
  using assms by (induction xs arbitrary: s) simp_all

lemma pushParticle_frame [simp]:
  "gameState (pushParticle x y c s) = gameState s"
  "gameOverReason (pushParticle x y c s) = gameOverReason s"
  "fuel (pushParticle x y c s) = fuel s"
  "car (pushParticle x y c s) = car s"
  "terrain (pushParticle x y c s) = terrain s"
  "terrainOffset (pushParticle x y c s) = terrainOffset s"
  "canvas_width (pushParticle x y c s) = canvas_width s"
  "canvas_height (pushParticle x y c s) = canvas_height s"
  "fuelPickups (pushParticle x y c s) = fuelPickups s"
  "coins (pushParticle x y c s) = coins s"
  "boosts (pushParticle x y c s) = boosts s"
  "bridges (pushParticle x y c s) = bridges s"
  "lastBridgeX (pushParticle x y c s) = lastBridgeX s"
  "nextBridgeX (pushParticle x y c s) = nextBridgeX s"
  "currentLevel (pushParticle x y c s) = currentLevel s"
  "score (pushParticle x y c s) = score s"
  "rnd (pushParticle x y c s) = rnd s"
  by (simp_all add: pushParticle_def consume_def Let_def)

lemma createParticles_frame [simp]:
  "gameState (createParticles x y c n s) = gameState s"
  "gameOverReason (createParticles x y c n s) = gameOverReason s"
  "fuel (createParticles x y c n s) = fuel s"
  "car (createParticles x y c n s) = car s"
  "terrain (createParticles x y c n s) = terrain s"
  "terrainOffset (createParticles x y c n s) = terrainOffset s"
  "canvas_width (createParticles x y c n s) = canvas_width s"
  "canvas_height (createParticles x y c n s) = canvas_height s"
  "fuelPickups (createParticles x y c n s) = fuelPickups s"
  "coins (createParticles x y c n s) = coins s"
  "boosts (createParticles x y c n s) = boosts s"
  "bridges (createParticles x y c n s) = bridges s"
  "lastBridgeX (createParticles x y c n s) = lastBridgeX s"
  "nextBridgeX (createParticles x y c n s) = nextBridgeX s"
  "currentLevel (createParticles x y c n s) = currentLevel s"
  "score (createParticles x y c n s) = score s"
  "rnd (createParticles x y c n s) = rnd s"
  by (induction n arbitrary: s; simp)+

lemma fuelStep_frame [simp]:
  "gameState (fuelStep cx cy r i s) = gameState s"
  "gameOverReason (fuelStep cx cy r i s) = gameOverReason s"
  "car (fuelStep cx cy r i s) = car s"
  "terrain (fuelStep cx cy r i s) = terrain s"
  "terrainOffset (fuelStep cx cy r i s) = terrainOffset s"
  "canvas_width (fuelStep cx cy r i s) = canvas_width s"
  "canvas_height (fuelStep cx cy r i s) = canvas_height s"
  "coins (fuelStep cx cy r i s) = coins s"
  "boosts (fuelStep cx cy r i s) = boosts s"
  "bridges (fuelStep cx cy r i s) = bridges s"
  "lastBridgeX (fuelStep cx cy r i s) = lastBridgeX s"
  "nextBridgeX (fuelStep cx cy r i s) = nextBridgeX s"
  "currentLevel (fuelStep cx cy r i s) = currentLevel s"
  "score (fuelStep cx cy r i s) = score s"
  "rnd (fuelStep cx cy r i s) = rnd s"
  by (simp_all add: fuelStep_def Let_def)

lemma coinStep_frame [simp]:
  "gameState (coinStep cx cy r i s) = gameState s"
  "gameOverReason (coinStep cx cy r i s) = gameOverReason s"
  "fuel (coinStep cx cy r i s) = fuel s"
  "car (coinStep cx cy r i s) = car s"
  "terrain (coinStep cx cy r i s) = terrain s"
  "terrainOffset (coinStep cx cy r i s) = terrainOffset s"
  "canvas_width (coinStep cx cy r i s) = canvas_width s"
  "canvas_height (coinStep cx cy r i s) = canvas_height s"
  "fuelPickups (coinStep cx cy r i s) = fuelPickups s"
  "boosts (coinStep cx cy r i s) = boosts s"
  "bridges (coinStep cx cy r i s) = bridges s"
  "lastBridgeX (coinStep cx cy r i s) = lastBridgeX s"
  "nextBridgeX (coinStep cx cy r i s) = nextBridgeX s"
  "currentLevel (coinStep cx cy r i s) = currentLevel s"
  "score (coinStep cx cy r i s) = score s"
  "rnd (coinStep cx cy r i s) = rnd s"
  by (simp_all add: coinStep_def Let_def)

lemma boostStep_frame [simp]:
  "gameState (boostStep now cx cy r i s) = gameState s"
  "gameOverReason (boostStep now cx cy r i s) = gameOverReason s"
  "fuel (boostStep now cx cy r i s) = fuel s"
  "car (boostStep now cx cy r i s) = car s"
  "terrain (boostStep now cx cy r i s) = terrain s"
  "terrainOffset (boostStep now cx cy r i s) = terrainOffset s"
  "canvas_width (boostStep now cx cy r i s) = canvas_width s"
  "canvas_height (boostStep now cx cy r i s) = canvas_height s"
  "fuelPickups (boostStep now cx cy r i s) = fuelPickups s"
  "coins (boostStep now cx cy r i s) = coins s"
  "bridges (boostStep now cx cy r i s) = bridges s"
  "lastBridgeX (boostStep now cx cy r i s) = lastBridgeX s"
  "nextBridgeX (boostStep now cx cy r i s) = nextBridgeX s"
  "currentLevel (boostStep now cx cy r i s) = currentLevel s"
  "score (boostStep now cx cy r i s) = score s"
  "rnd (boostStep now cx cy r i s) = rnd s"
  by (simp_all add: boostStep_def activateBoost_def Let_def)

lemma checkPickups_frame [simp]:
  "gameState (checkPickups now s) = gameState s"
  "gameOverReason (checkPickups now s) = gameOverReason s"
  "car (checkPickups now s) = car s"
  "terrain (checkPickups now s) = terrain s"
  "terrainOffset (checkPickups now s) = terrainOffset s"
  "canvas_width (checkPickups now s) = canvas_width s"
  "canvas_height (checkPickups now s) = canvas_height s"
  "bridges (checkPickups now s) = bridges s"
  "lastBridgeX (checkPickups now s) = lastBridgeX s"
  "nextBridgeX (checkPickups now s) = nextBridgeX s"
  "currentLevel (checkPickups now s) = currentLevel s"
  "score (checkPickups now s) = score s"
  "rnd (checkPickups now s) = rnd s"
  by (simp_all add: checkPickups_def Let_def fold_keeps)

lemma updateBoost_frame [simp]:
  "gameState (updateBoost now s) = gameState s"
  "gameOverReason (updateBoost now s) = gameOverReason s"
  "fuel (updateBoost now s) = fuel s"
  "car (updateBoost now s) = car s"
  "terrain (updateBoost now s) = terrain s"
  "terrainOffset (updateBoost now s) = terrainOffset s"
  "canvas_width (updateBoost now s) = canvas_width s"
  "canvas_height (updateBoost now s) = canvas_height s"
  "coins (updateBoost now s) = coins s"
  "fuelPickups (updateBoost now s) = fuelPickups s"
  "bridges (updateBoost now s) = bridges s"
  "lastBridgeX (updateBoost now s) = lastBridgeX s"
  "nextBridgeX (updateBoost now s) = nextBridgeX s"
  "currentLevel (updateBoost now s) = currentLevel s"
  "score (updateBoost now s) = score s"
  "rnd (updateBoost now s) = rnd s"
  by (simp_all add: updateBoost_def Let_def)

lemma updateParticles_frame [simp]:
  "gameState (updateParticles s) = gameState s"
  "gameOverReason (updateParticles s) = gameOverReason s"
  "fuel (updateParticles s) = fuel s"
  "car (updateParticles s) = car s"
  "terrain (updateParticles s) = terrain s"
  "terrainOffset (updateParticles s) = terrainOffset s"
  "canvas_width (updateParticles s) = canvas_width s"
  "canvas_height (updateParticles s) = canvas_height s"
  "coins (updateParticles s) = coins s"
  "fuelPickups (updateParticles s) = fuelPickups s"
  "bridges (updateParticles s) = bridges s"
  "lastBridgeX (updateParticles s) = lastBridgeX s"
  "nextBridgeX (updateParticles s) = nextBridgeX s"
  "currentLevel (updateParticles s) = currentLevel s"
  "score (updateParticles s) = score s"
  "rnd (updateParticles s) = rnd s"
  by (simp_all add: updateParticles_def)

lemma updateLevel_frame [simp]:
  "gameState (updateLevel s) = gameState s"
  "gameOverReason (updateLevel s) = gameOverReason s"
  "fuel (updateLevel s) = fuel s"
  "car (updateLevel s) = car s"
  "terrain (updateLevel s) = terrain s"
  "terrainOffset (updateLevel s) = terrainOffset s"
  "canvas_width (updateLevel s) = canvas_width s"
  "canvas_height (updateLevel s) = canvas_height s"
  "coins (updateLevel s) = coins s"
  "fuelPickups (updateLevel s) = fuelPickups s"
  "bridges (updateLevel s) = bridges s"
  "lastBridgeX (updateLevel s) = lastBridgeX s"
  "nextBridgeX (updateLevel s) = nextBridgeX s"
  "score (updateLevel s) = score s"
  "rnd (updateLevel s) = rnd s"
  by (simp_all add: updateLevel_def Let_def)

lemma updateBackground_frame [simp]:
  "gameState (updateBackground s) = gameState s"
  "gameOverReason (updateBackground s) = gameOverReason s"
  "fuel (updateBackground s) = fuel s"
  "car (updateBackground s) = car s"
  "terrain (updateBackground s) = terrain s"
  "terrainOffset (updateBackground s) = terrainOffset s"
  "canvas_width (updateBackground s) = canvas_width s"
  "canvas_height (updateBackground s) = canvas_height s"
  "coins (updateBackground s) = coins s"
  "fuelPickups (updateBackground s) = fuelPickups s"
  "bridges (updateBackground s) = bridges s"
  "lastBridgeX (updateBackground s) = lastBridgeX s"
  "nextBridgeX (updateBackground s) = nextBridgeX s"
  "currentLevel (updateBackground s) = currentLevel s"
  "score (updateBackground s) = score s"
  "rnd (updateBackground s) = rnd s"
  by (simp_all add: updateBackground_def Let_def)

section \<open>Terrain generation: what it leaves alone, what it appends\<close>

declare extendTerrain.simps [simp del]

lemma spawnBridge_frame [simp]:
  "gameState (spawnBridge x y b s) = gameState s"
  "gameOverReason (spawnBridge x y b s) = gameOverReason s"
  "fuel (spawnBridge x y b s) = fuel s"
  "car (spawnBridge x y b s) = car s"
  "terrain (spawnBridge x y b s) = terrain s"
  "terrainOffset (spawnBridge x y b s) = terrainOffset s"
  "canvas_width (spawnBridge x y b s) = canvas_width s"
  "canvas_height (spawnBridge x y b s) = canvas_height s"
  "currentLevel (spawnBridge x y b s) = currentLevel s"
  "score (spawnBridge x y b s) = score s"
  "keys (spawnBridge x y b s) = keys s"
  "rnd (spawnBridge x y b s) = rnd s"
  "coins (spawnBridge x y b s) = coins s"
  "fuelPickups (spawnBridge x y b s) = fuelPickups s"
  by (simp_all add: spawnBridge_def consume_def Let_def)

lemma spawnFuel_frame [simp]:
  "gameState (spawnFuel x y s) = gameState s"
  "gameOverReason (spawnFuel x y s) = gameOverReason s"
  "fuel (spawnFuel x y s) = fuel s"
  "car (spawnFuel x y s) = car s"
  "terrain (spawnFuel x y s) = terrain s"
  "terrainOffset (spawnFuel x y s) = terrainOffset s"
  "canvas_width (spawnFuel x y s) = canvas_width s"
  "canvas_height (spawnFuel x y s) = canvas_height s"
  "currentLevel (spawnFuel x y s) = currentLevel s"
  "score (spawnFuel x y s) = score s"
  "keys (spawnFuel x y s) = keys s"
  "rnd (spawnFuel x y s) = rnd s"
  "coins (spawnFuel x y s) = coins s"
  "bridges (spawnFuel x y s) = bridges s"
  "lastBridgeX (spawnFuel x y s) = lastBridgeX s"
  "nextBridgeX (spawnFuel x y s) = nextBridgeX s"
  by (simp_all add: spawnFuel_def consume_def)

lemma spawnBoost_frame [simp]:
  "gameState (spawnBoost x y s) = gameState s"
  "gameOverReason (spawnBoost x y s) = gameOverReason s"
  "fuel (spawnBoost x y s) = fuel s"
  "car (spawnBoost x y s) = car s"
  "terrain (spawnBoost x y s) = terrain s"
  "terrainOffset (spawnBoost x y s) = terrainOffset s"
  "canvas_width (spawnBoost x y s) = canvas_width s"
  "canvas_height (spawnBoost x y s) = canvas_height s"
  "currentLevel (spawnBoost x y s) = currentLevel s"
  "score (spawnBoost x y s) = score s"
  "keys (spawnBoost x y s) = keys s"
  "rnd (spawnBoost x y s) = rnd s"
  "coins (spawnBoost x y s) = coins s"
  "fuelPickups (spawnBoost x y s) = fuelPickups s"
  "bridges (spawnBoost x y s) = bridges s"
  "lastBridgeX (spawnBoost x y s) = lastBridgeX s"
  "nextBridgeX (spawnBoost x y s) = nextBridgeX s"
  by (simp_all add: spawnBoost_def consume_def)

lemma spawnCoin_frame [simp]:
  "gameState (spawnCoin x y s) = gameState s"
  "gameOverReason (spawnCoin x y s) = gameOverReason s"
  "fuel (spawnCoin x y s) = fuel s"
  "car (spawnCoin x y s) = car s"
  "terrain (spawnCoin x y s) = terrain s"
  "terrainOffset (spawnCoin x y s) = terrainOffset s"
  "canvas_width (spawnCoin x y s) = canvas_width s"
  "canvas_height (spawnCoin x y s) = canvas_height s"
  "currentLevel (spawnCoin x y s) = currentLevel s"
  "score (spawnCoin x y s) = score s"
  "keys (spawnCoin x y s) = keys s"
  "rnd (spawnCoin x y s) = rnd s"
  "fuelPickups (spawnCoin x y s) = fuelPickups s"
  "bridges (spawnCoin x y s) = bridges s"
  "lastBridgeX (spawnCoin x y s) = lastBridgeX s"
  "nextBridgeX (spawnCoin x y s) = nextBridgeX s"
  by (simp_all add: spawnCoin_def consume_def Let_def)

lemma addTerrainSegment_frame [simp]:
  "gameState (addTerrainSegment x i s) = gameState s"
  "gameOverReason (addTerrainSegment x i s) = gameOverReason s"
  "fuel (addTerrainSegment x i s) = fuel s"
  "car (addTerrainSegment x i s) = car s"
  "terrainOffset (addTerrainSegment x i s) = terrainOffset s"
  "canvas_width (addTerrainSegment x i s) = canvas_width s"
  "canvas_height (addTerrainSegment x i s) = canvas_height s"
  "currentLevel (addTerrainSegment x i s) = currentLevel s"
  "score (addTerrainSegment x i s) = score s"
  "keys (addTerrainSegment x i s) = keys s"
  "rnd (addTerrainSegment x i s) = rnd s"
  by (simp_all add: addTerrainSegment_def consume_def Let_def split: option.split)

lemma addTerrainSegment_map_x [simp]:
  "map seg_x (terrain (addTerrainSegment x i s)) = map seg_x (terrain s) @ [x]"
  by (simp add: addTerrainSegment_def consume_def Let_def split: option.split)

lemma addTerrainSegment_nonempty [simp]: "terrain (addTerrainSegment x i s) \<noteq> []"
  by (simp add: addTerrainSegment_def consume_def Let_def split: option.split)

lemma addTerrainSegment_last [simp]: "seg_x (last (terrain (addTerrainSegment x i s))) = x"
  by (simp add: addTerrainSegment_def consume_def Let_def split: option.split)

text \<open>A property of the state that \<open>addTerrainSegment\<close> keeps is kept by the
  extension loop, and so is a field it does not write.\<close>

lemma extendTerrain_invariant:
  assumes step: "\<And>x i t. P t \<Longrightarrow> P (addTerrainSegment x i t)"
  shows "P s \<Longrightarrow> extendTerrain s = Some s' \<Longrightarrow> P s'"
proof (induction s rule: extendTerrain.induct)
  case (1 s)
  show ?case
  proof (cases "terrain s \<noteq> [] \<and> seg_x (last (terrain s)) < terrainOffset s + canvas_width s + 100")
    case True
    with "1.prems" have "extendTerrain (addTerrainSegment (seg_x (last (terrain s)) + HILL_SEGMENT_WIDTH)
             (real (length (terrain s))) s) = Some s'"
      by (subst (asm) extendTerrain.simps) simp
    moreover have "P (addTerrainSegment (seg_x (last (terrain s)) + HILL_SEGMENT_WIDTH)
             (real (length (terrain s))) s)"
      using "1.prems"(1) by (rule step)
    ultimately show ?thesis using "1.IH" True by blast
  next
    case False
    with "1.prems" show ?thesis
      by (subst (asm) extendTerrain.simps) (auto split: if_splits)
  qed
qed

lemma extendTerrain_keeps:
  assumes "\<And>x i t. g (addTerrainSegment x i t) = g t"
  shows "extendTerrain s = Some s' \<Longrightarrow> g s' = g s"
  using extendTerrain_invariant [where P = "\<lambda>t. g t = g s" and s = s and s' = s'] assms
  by simp

lemma updateTerrain_cases:
  assumes "updateTerrain s = Some s'"
  obtains s1 where
    "extendTerrain (s\<lparr>terrain := dropWhile (\<lambda>p. seg_x p < terrainOffset s - 100) (terrain s)\<rparr>)
       = Some s1"
    "s' = s1\<lparr>bridges := filter (\<lambda>b. terrainOffset s1 - 200 < endX b) (bridges s1)\<rparr>"
  using assms by (auto simp: updateTerrain_def split: option.splits)

lemma updateTerrain_frame:
  assumes "updateTerrain s = Some s'"
  shows "gameState s' = gameState s" "gameOverReason s' = gameOverReason s"
    "fuel s' = fuel s" "car s' = car s" "terrainOffset s' = terrainOffset s"
    "canvas_width s' = canvas_width s" "canvas_height s' = canvas_height s"
    "currentLevel s' = currentLevel s" "score s' = score s" "keys s' = keys s" "rnd s' = rnd s"
proof -
  from assms obtain s1 where
    e: "extendTerrain (s\<lparr>terrain := dropWhile (\<lambda>p. seg_x p < terrainOffset s - 100) (terrain s)\<rparr>)
       = Some s1"
    and s': "s' = s1\<lparr>bridges := filter (\<lambda>b. terrainOffset s1 - 200 < endX b) (bridges s1)\<rparr>"
    by (rule updateTerrain_cases)
  show "gameState s' = gameState s"
    using extendTerrain_keeps [where g = gameState, OF _ e] by (simp add: s')
  show "gameOverReason s' = gameOverReason s"
    using extendTerrain_keeps [where g = gameOverReason, OF _ e] by (simp add: s')
  show "fuel s' = fuel s"
    using extendTerrain_keeps [where g = fuel, OF _ e] by (simp add: s')
  show "car s' = car s"
    using extendTerrain_keeps [where g = car, OF _ e] by (simp add: s')
  show "terrainOffset s' = terrainOffset s"
    using extendTerrain_keeps [where g = terrainOffset, OF _ e] by (simp add: s')
  show "canvas_width s' = canvas_width s"
    using extendTerrain_keeps [where g = canvas_width, OF _ e] by (simp add: s')
  show "canvas_height s' = canvas_height s"
    using extendTerrain_keeps [where g = canvas_height, OF _ e] by (simp add: s')
  show "currentLevel s' = currentLevel s"
    using extendTerrain_keeps [where g = currentLevel, OF _ e] by (simp add: s')
  show "score s' = score s"
    using extendTerrain_keeps [where g = score, OF _ e] by (simp add: s')
  show "keys s' = keys s"
    using extendTerrain_keeps [where g = keys, OF _ e] by (simp add: s')
  show "rnd s' = rnd s"
    using extendTerrain_keeps [where g = rnd, OF _ e] by (simp add: s')
qed

section \<open>The frame as a whole\<close>

lemma gameLoop_not_playing: "gameState s \<noteq> Playing \<Longrightarrow> gameLoop now s = Some s"
  by (simp add: gameLoop_def)

lemma gameLoop_playing:
  assumes "gameState s = Playing" "gameLoop now s = Some s'"
  obtains s1 where "updateTerrain (updatePhysics s) = Some s1"
    "s' = updateBackground (updateLevel (updateParticles (updateBoost now (checkPickups now s1))))"
  using assms by (auto simp: gameLoop_def split: option.splits)

lemma gameLoop_reason:
  assumes "gameState s = Playing" "gameLoop now s = Some s'"
  shows "gameState s' = gameState (updatePhysics s)"
    "gameOverReason s' = gameOverReason (updatePhysics s)"
proof -
  from assms obtain s1 where u: "updateTerrain (updatePhysics s) = Some s1"
    and s': "s' = updateBackground (updateLevel (updateParticles
                    (updateBoost now (checkPickups now s1))))"
    by (rule gameLoop_playing)
  show "gameState s' = gameState (updatePhysics s)"
    by (simp add: s' updateTerrain_frame(1) [OF u])
  show "gameOverReason s' = gameOverReason (updatePhysics s)"
    by (simp add: s' updateTerrain_frame(2) [OF u])
qed

lemma updatePhysics_playing:
  assumes "gameState s = Playing"
  shows "updatePhysics s =
           (if fellCond (moveCar s)
              then (moveCar s)\<lparr>gameState := GameOver, gameOverReason := FELL\<rparr>
            else if flipCond (moveCar s)
              then (moveCar s)\<lparr>gameState := GameOver, gameOverReason := FLIPPED\<rparr>
            else if fuelOutCond (moveCar s)
              then (moveCar s)\<lparr>gameState := GameOver, gameOverReason := OUT_OF_FUEL\<rparr>
            else moveCar s)"
  unfolding updatePhysics_def using assms by (subst terminalChecks_playing) simp_all

lemma atan2_flat [simp]: "0 < x \<Longrightarrow> atan2 0 x = 0"
  by (simp add: atan2_def)

lemmas physics_defs =
  moveCar_def applyControls_def limitSpeeds_def currentMaxSpeed_def currentAcceleration_def
  applyGravity_def updateWheelPositions_def resolveContact_def checkWheelCollision_def
  getTerrainHeightAt_def groundedStep_def airborneStep_def getTerrainAngleAt_def
  integratePosition_def scrollTerrain_def clampRear_def

lemma deepRun_moveCar:
  "moveCar deepRun = deepRun\<lparr>car := initialCar\<lparr>car_y := 777, rotation := pi * (85 / 100),
      onGround := True,
      frontWheel := \<lparr>wheel_x = 200 - 1925 / 100, wheel_y = 804, radius = 9\<rparr>,
      backWheel := \<lparr>wheel_x = 200 + 1925 / 100, wheel_y = 804, radius = 9\<rparr>\<rparr>\<rparr>"
  by (simp add: deepRun_def initialGame_def initialCar_def physics_defs game_consts Let_def
        algebra_simps)

lemma deepRun_conds:
  "gameState deepRun = Playing" "fellCond (moveCar deepRun)" "flipCond (moveCar deepRun)"
  "fuelOutCond (moveCar deepRun)"
proof -
  show "gameState deepRun = Playing" by (simp add: deepRun_def)
  show "fellCond (moveCar deepRun)"
    by (simp add: deepRun_moveCar fellCond_def) (simp add: deepRun_def initialGame_def)
  have "0 \<le> pi * (85 / 100)" "pi * (85 / 100) < pi * 2" by simp_all
  then show "flipCond (moveCar deepRun)"
    by (simp add: deepRun_moveCar flipCond_direct)
  show "fuelOutCond (moveCar deepRun)"
    by (simp add: deepRun_moveCar fuelOutCond_def)
      (simp add: deepRun_def initialGame_def initialCar_def)
qed

lemma deepRun_updatePhysics:
  "updatePhysics deepRun = (moveCar deepRun)\<lparr>gameState := GameOver, gameOverReason := FELL\<rparr>"
  by (simp add: updatePhysics_playing deepRun_conds)

lemmas frame_defs =
  updateTerrain_def checkPickups_def updateBoost_def updateParticles_def updateLevel_def
  updateBackground_def

lemma deepRun_gameLoop: "gameLoop now deepRun = Some (updatePhysics deepRun)"
  unfolding gameLoop_def deepRun_updatePhysics deepRun_moveCar
  by (simp add: deepRun_def initialGame_def frame_defs extendTerrain.simps js_rem_def
        js_trunc_def game_consts Let_def)

text \<open>
  C9. When more than one terminal condition holds during the same physics update, the
  run ends with the first reason in the fixed order of the tests: fell into the abyss,
  then flipped, then out of fuel. Every later call of \<open>endGame\<close> finds the state no
  longer \<open>Playing\<close> and returns at once, and the rest of the frame does not touch
  the reason.
\<close>

theorem end_reason_order:
  assumes "gameState s = Playing"
  shows "updatePhysics s =
           (if fellCond (moveCar s)
              then (moveCar s)\<lparr>gameState := GameOver, gameOverReason := FELL\<rparr>
            else if flipCond (moveCar s)
              then (moveCar s)\<lparr>gameState := GameOver, gameOverReason := FLIPPED\<rparr>
            else if fuelOutCond (moveCar s)
              then (moveCar s)\<lparr>gameState := GameOver, gameOverReason := OUT_OF_FUEL\<rparr>
            else moveCar s)
         \<and> (\<forall>now s'. gameLoop now s = Some s' \<longrightarrow>
               gameState s' = gameState (updatePhysics s) \<and>
               gameOverReason s' = gameOverReason (updatePhysics s))"
  using assms updatePhysics_playing [OF assms] gameLoop_reason [OF assms] by blast

theorem end_reason_order_witness:
  "gameState deepRun = Playing \<and> fellCond (moveCar deepRun) \<and> flipCond (moveCar deepRun) \<and>
   fuelOutCond (moveCar deepRun) \<and>
   gameLoop 0 deepRun = Some (updatePhysics deepRun) \<and>
   gameState (updatePhysics deepRun) = GameOver \<and>
   gameOverReason (updatePhysics deepRun) = FELL"
  using end_reason_order [of deepRun] deepRun_conds deepRun_gameLoop by simp

text \<open>
  C8. Once a frame has ended the run, every later frame, until \<open>startGame\<close> is
  called again, returns at once: no field of the simulation state changes, whatever
  the clock readings. The input handlers may still write the intent flags between
  frames; these flags are the only thing a sequence of ticks changes.
\<close>

theorem ended_run_frozen:
  assumes "gameState s \<noteq> Playing"
  shows "frames nows s = Some s \<and>
         ticks inps s = Some (s\<lparr>keys := last (keys s # map fst inps)\<rparr>)"
proof
  show "frames nows s = Some s"
    using assms by (induction nows) (simp_all add: gameLoop_not_playing)
  show "ticks inps s = Some (s\<lparr>keys := last (keys s # map fst inps)\<rparr>)"
    using assms
  proof (induction inps arbitrary: s)
    case Nil
    then show ?case by simp
  next
    case (Cons inp inps)
    have "gameState (s\<lparr>keys := fst inp\<rparr>) \<noteq> Playing" using Cons.prems by simp
    from Cons.IH [OF this] show ?case
      using Cons.prems by (simp add: tick_def gameLoop_not_playing)
  qed
qed

theorem ended_run_frozen_witness:
  "gameLoop 0 deepRun = Some (updatePhysics deepRun) \<and>
   gameState (updatePhysics deepRun) \<noteq> Playing \<and>
   frames [16, 33, 50] (updatePhysics deepRun) = Some (updatePhysics deepRun) \<and>
   ticks [(\<lparr>forward = True, backward = False, brake = False\<rparr>, 16)] (updatePhysics deepRun)
     = Some ((updatePhysics deepRun)\<lparr>keys := \<lparr>forward = True, backward = False, brake = False\<rparr>\<rparr>)"
proof -
  have g: "gameState (updatePhysics deepRun) \<noteq> Playing"
    by (simp add: deepRun_updatePhysics)
  show ?thesis
    using ended_run_frozen [OF g, of "[16, 33, 50]"
        "[(\<lparr>forward = True, backward = False, brake = False\<rparr>, 16)]"] g deepRun_gameLoop
    by simp
qed

section \<open>Coins\<close>

lemma fold_invariant:
  assumes "P s" "\<And>i t. P t \<Longrightarrow> P (f i t)"
  shows "P (fold f xs s)"
  using assms by (induction xs arbitrary: s) simp_all

lemma spawnCoin_none:
  assumes "20 \<le> currentLevel s" "0 \<le> draw s"
  shows "coins (spawnCoin x y s) = coins s"
proof -
  have "COIN_PICKUP_CHANCE * (1 - currentLevel s * (5 / 100)) \<le> 0"
    using assms(1) by (simp add: game_consts)
  then have "\<not> draw s < COIN_PICKUP_CHANCE * (1 - currentLevel s * (5 / 100))"
    using assms(2) by linarith
  then show ?thesis by (simp add: spawnCoin_def consume_def Let_def)
qed

lemma addTerrainSegment_no_coin:
  assumes "20 \<le> currentLevel s" "\<forall>i. 0 \<le> rnd s i"
  shows "coins (addTerrainSegment x i s) = coins s"
proof -
  have "coins (spawnCoin x y (spawnBoost x y (spawnFuel x y (spawnBridge x y b t)))) = coins t"
    if "currentLevel t = currentLevel s" "rnd t = rnd s" for y b t
    using that assms by (subst spawnCoin_none) (simp_all add: draw_def)
  then show ?thesis
    by (simp add: addTerrainSegment_def consume_def Let_def split: option.split)
qed

lemma updateTerrain_no_coin:
  assumes "20 \<le> currentLevel s" "\<forall>i. 0 \<le> rnd s i" "updateTerrain s = Some s'"
  shows "coins s' = coins s"
proof -
  let ?s0 = "s\<lparr>terrain := dropWhile (\<lambda>p. seg_x p < terrainOffset s - 100) (terrain s)\<rparr>"
  let ?P = "\<lambda>t::game. coins t = coins s \<and> currentLevel t = currentLevel s \<and> rnd t = rnd s"
  from assms(3) obtain s1 where e: "extendTerrain ?s0 = Some s1"
    and s': "s' = s1\<lparr>bridges := filter (\<lambda>b. terrainOffset s1 - 200 < endX b) (bridges s1)\<rparr>"
    by (rule updateTerrain_cases)
  have "?P s1"
  proof (rule extendTerrain_invariant [where P = ?P, OF _ _ e])
    show "?P ?s0" by simp
    fix x i and t :: game assume "?P t"
    then show "?P (addTerrainSegment x i t)"
      using assms(1,2) by (simp add: addTerrainSegment_no_coin)
  qed
  then show ?thesis by (simp add: s')
qed

text \<open>The coin loop only sets \<open>collected\<close> flags, and the pruning that follows drops
  every flagged coin: what is left was there before.\<close>

lemma coinStep_flags:
  assumes "list_all2 (\<lambda>a b. b = a \<or> collected b) cs (coins t)"
  shows "list_all2 (\<lambda>a b. b = a \<or> collected b) cs (coins (coinStep cx cy r i t))"
proof -
  have "list_all2 (\<lambda>a b. b = a \<or> collected b) (cs[i := cs ! i])
          ((coins t)[i := (coins t ! i)\<lparr>collected := True\<rparr>])"
    using assms by (intro list_all2_update_cong) simp_all
  then show ?thesis using assms by (simp add: coinStep_def Let_def)
qed

lemma pruned_flags:
  assumes "list_all2 (\<lambda>a b. b = a \<or> collected b) cs ds"
  shows "set (filter (\<lambda>c. \<not> collected c \<and> Q c) ds) \<subseteq> set cs \<and>
         length (filter (\<lambda>c. \<not> collected c \<and> Q c) ds) \<le> length cs"
  using assms by (induction rule: list_all2_induct) auto

lemma checkPickups_coins:
  "set (coins (checkPickups now s)) \<subseteq> set (coins s) \<and>
   length (coins (checkPickups now s)) \<le> length (coins s)"
proof -
  let ?R = "\<lambda>t::game. list_all2 (\<lambda>a b. b = a \<or> collected b) (coins s) (coins t)"
  define cx where "cx = car_x (car s) + terrainOffset s"
  define cy where "cy = car_y (car s)"
  define r where "r = max (car_width (car s)) (car_height (car s)) * (6 / 10)"
  define s1 where "s1 = fold (fuelStep cx cy r) [0 ..< length (fuelPickups s)] s"
  define s2 where "s2 = fold (coinStep cx cy r) [0 ..< length (coins s1)] s1"
  define s3 where "s3 = fold (boostStep now cx cy r) [0 ..< length (boosts s2)] s2"
  have c1: "coins s1 = coins s" unfolding s1_def by (rule fold_keeps) simp
  have "?R s1" by (simp add: c1 list_all2_same)
  then have "?R s2" unfolding s2_def
    by (rule fold_invariant) (rule coinStep_flags)
  moreover have "coins s3 = coins s2" unfolding s3_def by (rule fold_keeps) simp
  ultimately have "?R s3" by simp
  from pruned_flags [OF this, of "\<lambda>c. terrainOffset s3 - PICKUP_CLEAR_BEHIND < pick_x c"]
  show ?thesis
    by (simp add: checkPickups_def Let_def cx_def cy_def r_def s1_def s2_def s3_def)
qed

lemma updateLevel_mono: "currentLevel s \<le> currentLevel (updateLevel s)"
  by (simp add: updateLevel_def Let_def)

lemma gameLoop_no_coin:
  assumes "20 \<le> currentLevel s" "\<forall>i. 0 \<le> rnd s i" "gameLoop now s = Some s'"
  shows "20 \<le> currentLevel s' \<and> rnd s' = rnd s \<and>
         set (coins s') \<subseteq> set (coins s) \<and> length (coins s') \<le> length (coins s)"
proof (cases "gameState s = Playing")
  case False
  with assms(3) show ?thesis using assms(1) by (simp add: gameLoop_not_playing)
next
  case True
  from True assms(3) obtain s1 where u: "updateTerrain (updatePhysics s) = Some s1"
    and s': "s' = updateBackground (updateLevel (updateParticles
                    (updateBoost now (checkPickups now s1))))"
    by (rule gameLoop_playing)
  have p: "currentLevel (updatePhysics s) = currentLevel s" "rnd (updatePhysics s) = rnd s"
    "coins (updatePhysics s) = coins s"
    by (simp_all add: updatePhysics_def)
  have c: "coins s1 = coins s"
    using updateTerrain_no_coin [OF _ _ u] assms(1,2) p by simp
  have l: "currentLevel s1 = currentLevel s" "rnd s1 = rnd s"
    using updateTerrain_frame(8,11) [OF u] p by simp_all
  have "currentLevel s \<le> currentLevel s'"
    using updateLevel_mono [of "updateParticles (updateBoost now (checkPickups now s1))"]
    by (simp add: s' l)
  moreover have "coins s' = coins (checkPickups now s1)" by (simp add: s')
  moreover have "rnd s' = rnd s" by (simp add: s' l)
  ultimately show ?thesis using checkPickups_coins [of now s1] assms(1) c by simp
qed

text \<open>
  C10. Once the current level is 20 or more, the coin spawn probability
  \<open>COIN_PICKUP_CHANCE * (1 - currentLevel * 0.05)\<close> is at most zero, so for every
  stream of non-negative draws no sample adds a coin; the level never decreases during
  a run, so over any sequence of ticks the coin list only loses elements.
\<close>

theorem no_coins_from_level_20:
  assumes "20 \<le> currentLevel s" "\<forall>i. 0 \<le> rnd s i"
  shows "COIN_PICKUP_CHANCE * (1 - currentLevel s * (5 / 100)) \<le> 0 \<and>
         coins (addTerrainSegment x i s) = coins s \<and>
         (\<forall>inps s'. ticks inps s = Some s' \<longrightarrow>
            20 \<le> currentLevel s' \<and> set (coins s') \<subseteq> set (coins s) \<and>
            length (coins s') \<le> length (coins s))"
proof (intro conjI allI impI)
  show "COIN_PICKUP_CHANCE * (1 - currentLevel s * (5 / 100)) \<le> 0"
    using assms(1) by (simp add: game_consts)
  show "coins (addTerrainSegment x i s) = coins s"
    using assms by (rule addTerrainSegment_no_coin)
next
  fix inps s'
  assume "ticks inps s = Some s'"
  then have "20 \<le> currentLevel s' \<and> set (coins s') \<subseteq> set (coins s) \<and>
             length (coins s') \<le> length (coins s)"
    using assms
  proof (induction inps arbitrary: s)
    case Nil
    then show ?case by simp
  next
    case (Cons inp inps)
    from Cons.prems(1) obtain s1 where g: "gameLoop (snd inp) (s\<lparr>keys := fst inp\<rparr>) = Some s1"
      and r: "ticks inps s1 = Some s'"
      by (auto simp: tick_def split: option.splits)
    have s1: "20 \<le> currentLevel s1 \<and> rnd s1 = rnd s \<and>
              set (coins s1) \<subseteq> set (coins s) \<and> length (coins s1) \<le> length (coins s)"
      using gameLoop_no_coin [OF _ _ g] Cons.prems(2,3) by simp
    then have "20 \<le> currentLevel s' \<and> set (coins s') \<subseteq> set (coins s1) \<and>
               length (coins s') \<le> length (coins s1)"
      using Cons.IH [OF r] Cons.prems(3) by simp
    with s1 show ?case by auto
  qed
  then show "20 \<le> currentLevel s'" "set (coins s') \<subseteq> set (coins s)"
    "length (coins s') \<le> length (coins s)" by simp_all
qed


lemma lateRun_moveCar:
  "moveCar lateRun = lateRun\<lparr>car := initialCar\<lparr>car_y := 3004 / 10, velocityY := 4 / 10,
      frontWheel := \<lparr>wheel_x = 200 + 1925 / 100, wheel_y = 314, radius = 9\<rparr>,
      backWheel := \<lparr>wheel_x = 200 - 1925 / 100, wheel_y = 314, radius = 9\<rparr>\<rparr>\<rparr>"
  by (simp add: lateRun_def initialGame_def initialCar_def physics_defs game_consts Let_def
        algebra_simps)

lemma lateRun_updatePhysics: "updatePhysics lateRun = moveCar lateRun"
proof -
  have "gameState lateRun = Playing" by (simp add: lateRun_def)
  moreover have "\<not> fellCond (moveCar lateRun)"
    by (simp add: lateRun_moveCar fellCond_def) (simp add: lateRun_def initialGame_def)
  moreover have "\<not> flipCond (moveCar lateRun)"
    by (simp add: lateRun_moveCar flipCond_direct initialCar_def)
  moreover have "\<not> fuelOutCond (moveCar lateRun)"
    by (simp add: lateRun_moveCar fuelOutCond_def) (simp add: lateRun_def initialGame_def game_consts)
  ultimately show ?thesis by (simp add: updatePhysics_playing)
qed

lemma lateRun_tick: "\<exists>s'. ticks [(idle, 16)] lateRun = Some s'"
proof -
  have k: "lateRun\<lparr>keys := idle\<rparr> = lateRun"
    by (simp add: lateRun_def initialGame_def idle_def)
  have "\<exists>s1. updateTerrain (updatePhysics lateRun) = Some s1"
    unfolding lateRun_updatePhysics lateRun_moveCar
    by (simp add: lateRun_def initialGame_def updateTerrain_def extendTerrain.simps game_consts)
  moreover have "gameState lateRun = Playing" by (simp add: lateRun_def)
  ultimately show ?thesis
    by (auto simp: tick_def k gameLoop_def)
qed

theorem no_coins_from_level_20_witness:
  "20 \<le> currentLevel lateRun \<and> (\<forall>i. 0 \<le> rnd lateRun i) \<and>
   coins (addTerrainSegment 1320 2 lateRun) = coins lateRun \<and>
   (\<exists>s'. ticks [(idle, 16)] lateRun = Some s' \<and> 20 \<le> currentLevel s' \<and>
      set (coins s') \<subseteq> set (coins lateRun))"
proof -
  have h: "20 \<le> currentLevel lateRun" "\<forall>i. 0 \<le> rnd lateRun i"
    by (simp_all add: lateRun_def initialGame_def)
  from lateRun_tick obtain s' where s': "ticks [(idle, 16)] lateRun = Some s'" ..
  show ?thesis
    using no_coins_from_level_20 [OF h, of 1320 2] h s' by blast
qed

text \<open>One level lower the probability is still positive: with a draw of \<open>0\<close> a
  sample of a level-19 run adds a coin.\<close>

lemma coin_at_level_19:
  "length (coins (addTerrainSegment 1320 2
      ((initialGame 1200 600 (\<lambda>i. 0))\<lparr>gameState := Playing, currentLevel := 19\<rparr>))) = 1"
  by (simp add: addTerrainSegment_def spawnCoin_def spawnBoost_def spawnFuel_def spawnBridge_def
        consume_def draw_def initialGame_def game_consts Let_def)

section \<open>Controls\<close>

lemma applyControls_velocityX:
  "velocityX (car (applyControls s)) =
     (velocityX (car s)
        + (if forward (keys s) \<and> 0 < fuel s then currentAcceleration s else 0)
        - (if backward (keys s) then ACCELERATION * (8 / 10) else 0))
     * (if brake (keys s) then 1 - BRAKE_FORCE else 1)"
  by (simp add: applyControls_def Let_def)

lemma applyControls_fuel:
  "fuel (applyControls s) =
     (if forward (keys s) \<and> 0 < fuel s then max 0 (fuel s - FUEL_CONSUMPTION) else fuel s)"
  by (auto simp: applyControls_def Let_def max_def)

lemma limitSpeeds_velocityX:
  "velocityX (car (limitSpeeds s)) =
     max REVERSE_SPEED (min (currentMaxSpeed s) (velocityX (car s)))"
  by (auto simp: limitSpeeds_def Let_def currentMaxSpeed_def game_consts)

lemma currentMaxSpeed_frame [simp]:
  "currentMaxSpeed (applyControls s) = currentMaxSpeed s"
  by (simp add: currentMaxSpeed_def)

lemma beforeContact_car [simp]:
  "velocityX (car (beforeContact s)) = limitedSpeed s"
  "rotation (car (beforeContact s)) = rotation (car s)"
  "angularVelocity (car (beforeContact s)) = angularVelocity (car s)"
  "car_x (car (beforeContact s)) = car_x (car s)"
  "terrain (beforeContact s) = terrain s"
  "terrainOffset (beforeContact s) = terrainOffset s"
  "canvas_width (beforeContact s) = canvas_width s"
  by (simp_all add: beforeContact_def limitedSpeed_def limitSpeeds_velocityX)

lemma getTerrainAngleAt_car [simp]: "getTerrainAngleAt (s\<lparr>car := c\<rparr>) x = getTerrainAngleAt s x"
  by (simp add: getTerrainAngleAt_def)

lemma resolveContact_velocityX:
  "velocityX (car (resolveContact t)) =
     (if onGround (car (resolveContact t))
      then velocityX (car t) * GROUND_FRICTION
             + sin (getTerrainAngleAt t (car_x (car t) + terrainOffset t)) * (25 / 100)
      else velocityX (car t) * AIR_RESISTANCE)"
  by (simp add: resolveContact_def groundedStep_def airborneStep_def Let_def
        split: option.split prod.split)


lemma after_contact_car [simp]:
  "onGround (car (integratePosition t)) = onGround (car t)"
  "rotation (car (integratePosition t)) = rotation (car t)"
  "velocityX (car (integratePosition t)) = velocityX (car t)"
  "onGround (car (scrollTerrain t)) = onGround (car t)"
  "rotation (car (scrollTerrain t)) = rotation (car t)"
  "velocityX (car (scrollTerrain t)) = velocityX (car t)"
  "onGround (car (clampRear t)) = onGround (car t)"
  "rotation (car (clampRear t)) = rotation (car t)"
  by (simp_all add: integratePosition_def scrollTerrain_def clampRear_def Let_def)

lemma clampRear_velocityX:
  "velocityX (car t) \<le> velocityX (car (clampRear t)) \<and>
   velocityX (car (clampRear t)) \<le> max 0 (velocityX (car t))"
  by (simp add: clampRear_def)

lemma moveCar_beforeContact:
  "moveCar s = clampRear (scrollTerrain (integratePosition (resolveContact (beforeContact s))))"
  by (simp add: moveCar_def beforeContact_def)

lemma moveCar_onGround:
  "onGround (car (moveCar s)) = onGround (car (resolveContact (beforeContact s)))"
  by (simp add: moveCar_beforeContact)


lemma moveCar_velocityX:
  "contactSpeed s \<le> velocityX (car (moveCar s)) \<and>
   velocityX (car (moveCar s)) \<le> max 0 (contactSpeed s)"
proof -
  have "velocityX (car (scrollTerrain (integratePosition (resolveContact (beforeContact s)))))
          = contactSpeed s"
    by (simp add: contactSpeed_def moveCar_onGround resolveContact_velocityX getTerrainAngleAt_def)
  then show ?thesis
    using clampRear_velocityX
      [of "scrollTerrain (integratePosition (resolveContact (beforeContact s)))"]
    by (simp add: moveCar_beforeContact)
qed

lemma forwardAir_moveCar:
  "moveCar forwardAir = forwardAir\<lparr>fuel := 99985 / 1000,
      car := initialCar\<lparr>car_x := 2003465 / 10000, car_y := 3004 / 10,
        velocityX := 3465 / 10000, velocityY := 4 / 10,
        angularVelocity := 2772 / 10000000,
        frontWheel := \<lparr>wheel_x = 200 + 1925 / 100, wheel_y = 314, radius = 9\<rparr>,
        backWheel := \<lparr>wheel_x = 200 - 1925 / 100, wheel_y = 314, radius = 9\<rparr>\<rparr>\<rparr>"
  by (simp add: forwardAir_def flatRun_def initialGame_def initialCar_def physics_defs game_consts
        Let_def algebra_simps)

lemma forwardAir_updatePhysics: "updatePhysics forwardAir = moveCar forwardAir"
proof -
  have "gameState forwardAir = Playing" by (simp add: forwardAir_def flatRun_def)
  moreover have "\<not> fellCond (moveCar forwardAir)"
    by (simp add: forwardAir_moveCar fellCond_def)
      (simp add: forwardAir_def flatRun_def initialGame_def)
  moreover have "\<not> flipCond (moveCar forwardAir)"
    by (simp add: forwardAir_moveCar flipCond_direct initialCar_def)
  moreover have "\<not> fuelOutCond (moveCar forwardAir)"
    by (simp add: forwardAir_moveCar fuelOutCond_def)
  ultimately show ?thesis by (simp add: updatePhysics_playing)
qed

text \<open>
  C7, as the code has it. The control block of \<open>updatePhysics\<close> runs before the
  ground test and does not read it: backward intent subtracts \<open>ACCELERATION * 0.8\<close>
  and forward intent adds the current acceleration on every tick, grounded or airborne;
  forward acceleration and fuel consumption happen only while fuel is above zero. On an
  airborne tick the speed that results is the limited speed out of the control block
  times \<open>AIR_RESISTANCE\<close> (the rear clamp can only lift a negative speed to zero).
\<close>

theorem controls_regardless_of_ground:
  "velocityX (car (applyControls s)) =
     (velocityX (car s)
        + (if forward (keys s) \<and> 0 < fuel s then currentAcceleration s else 0)
        - (if backward (keys s) then ACCELERATION * (8 / 10) else 0))
     * (if brake (keys s) then 1 - BRAKE_FORCE else 1)
   \<and> fuel (applyControls s) =
       (if forward (keys s) \<and> 0 < fuel s then max 0 (fuel s - FUEL_CONSUMPTION) else fuel s)
   \<and> limitedSpeed s =
       max REVERSE_SPEED (min (currentMaxSpeed s) (velocityX (car (applyControls s))))
   \<and> (\<not> onGround (car (moveCar s)) \<longrightarrow>
        limitedSpeed s * AIR_RESISTANCE \<le> velocityX (car (moveCar s)) \<and>
        velocityX (car (moveCar s)) \<le> max 0 (limitedSpeed s * AIR_RESISTANCE))"
proof (intro conjI impI)
  assume "\<not> onGround (car (moveCar s))"
  then have "contactSpeed s = limitedSpeed s * AIR_RESISTANCE" by (simp add: contactSpeed_def)
  with moveCar_velocityX [of s]
  show "limitedSpeed s * AIR_RESISTANCE \<le> velocityX (car (moveCar s))"
    "velocityX (car (moveCar s)) \<le> max 0 (limitedSpeed s * AIR_RESISTANCE)"
    by simp_all
qed (rule applyControls_velocityX applyControls_fuel limitedSpeed_def)+

theorem controls_regardless_of_ground_witness:
  "\<not> onGround (car (moveCar forwardAir)) \<and> limitedSpeed forwardAir = ACCELERATION \<and>
   velocityX (car (moveCar forwardAir)) = ACCELERATION * AIR_RESISTANCE \<and>
   fuel (applyControls forwardAir) = INITIAL_FUEL - FUEL_CONSUMPTION"
proof -
  have a: "\<not> onGround (car (moveCar forwardAir))"
    by (simp add: forwardAir_moveCar initialCar_def)
  have k: "forward (keys forwardAir)" "\<not> backward (keys forwardAir)" "\<not> brake (keys forwardAir)"
    "fuel forwardAir = INITIAL_FUEL" "velocityX (car forwardAir) = 0" "\<not> boostActive forwardAir"
    by (simp_all add: forwardAir_def flatRun_def initialGame_def initialCar_def)
  note c = controls_regardless_of_ground [of forwardAir]
  have v: "velocityX (car (applyControls forwardAir)) = ACCELERATION"
    using c k by (simp add: currentAcceleration_def INITIAL_FUEL_def)
  have l: "limitedSpeed forwardAir = ACCELERATION"
    using c k v by (simp add: currentMaxSpeed_def game_consts)
  have "velocityX (car (moveCar forwardAir)) = ACCELERATION * AIR_RESISTANCE"
    using c a l by (simp add: game_consts)
  moreover have "fuel (applyControls forwardAir) = INITIAL_FUEL - FUEL_CONSUMPTION"
    using c k by (simp add: game_consts)
  ultimately show ?thesis using a l by simp
qed

text \<open>The claim as stated fails: on an airborne tick with forward intent and fuel left,
  a car at rest leaves the tick with the forward acceleration in its speed.\<close>

theorem forward_applies_airborne_counterexample:
  "forward (keys forwardAir) \<and> 0 < fuel forwardAir \<and> velocityX (car forwardAir) = 0 \<and>
   \<not> onGround (car forwardAir) \<and> \<not> onGround (car (updatePhysics forwardAir)) \<and>
   velocityX (car (updatePhysics forwardAir)) = ACCELERATION * AIR_RESISTANCE"
  unfolding forwardAir_updatePhysics forwardAir_moveCar
  by (simp add: forwardAir_def flatRun_def initialGame_def initialCar_def game_consts)

section \<open>Fuel\<close>




















section \<open>Out of fuel\<close>

lemma currentMaxSpeed_bounds: "MAX_SPEED \<le> currentMaxSpeed s" "currentMaxSpeed s \<le> 216 / 10"
  by (simp_all add: currentMaxSpeed_def game_consts)












section \<open>Flip\<close>











section \<open>Height query\<close>









section \<open>The terrain window\<close>

lemma limitedSpeed_bounds: "- 6 \<le> limitedSpeed s" "limitedSpeed s \<le> 216 / 10"
  using currentMaxSpeed_bounds [of s] by (simp_all add: limitedSpeed_def game_consts)

lemma contactSpeed_upper: "contactSpeed s \<le> 216 / 10"
proof -
  define a where "a = sin (getTerrainAngleAt s (car_x (car s) + terrainOffset s))"
  have "a \<le> 1" by (simp add: a_def)
  then have "limitedSpeed s * GROUND_FRICTION + a * (25 / 100) \<le> 216 / 10"
    "limitedSpeed s * AIR_RESISTANCE \<le> 216 / 10"
    using limitedSpeed_bounds [of s] by (simp_all add: game_consts)
  then show ?thesis by (simp add: contactSpeed_def a_def)
qed

lemma resolveContact_car_x [simp]: "car_x (car (resolveContact t)) = car_x (car t)"
  by (simp add: resolveContact_def groundedStep_def airborneStep_def Let_def
        split: option.split prod.split)

lemma integratePosition_car_x [simp]:
  "car_x (car (integratePosition t)) = car_x (car t) + velocityX (car t)"
  by (simp add: integratePosition_def)

lemma scrollTerrain_effect:
  "terrainOffset (scrollTerrain t)
     = terrainOffset t + max 0 (car_x (car t) - canvas_width t * (4 / 10))"
  "car_x (car (scrollTerrain t)) = min (car_x (car t)) (canvas_width t * (4 / 10))"
  by (simp_all add: scrollTerrain_def Let_def)

lemma clampRear_car_x: "car_x (car (clampRear t)) = max 50 (car_x (car t))"
  by (simp add: clampRear_def)

lemma contact_velocityX:
  "velocityX (car (resolveContact (beforeContact s))) = contactSpeed s"
  by (simp add: contactSpeed_def moveCar_onGround resolveContact_velocityX getTerrainAngleAt_def)

lemma moveCar_scroll:
  "terrainOffset (moveCar s)
     = terrainOffset s + max 0 (car_x (car s) + contactSpeed s - canvas_width s * (4 / 10))"
  by (simp add: moveCar_beforeContact scrollTerrain_effect contact_velocityX)

lemma moveCar_car_x: "car_x (car (moveCar s)) \<le> max (canvas_width s * (4 / 10)) 50"
  by (simp add: moveCar_beforeContact clampRear_car_x scrollTerrain_effect)

text \<open>After the physics update the window may lag behind, but its last sample is still
  inside the trailing margin, so the shift loop cannot empty the buffer.\<close>

lemma moveCar_window:
  assumes "windowInv s"
  shows "terrainOffset (moveCar s) - 100 \<le> seg_x (last (terrain s))"
    "terrainOffset s \<le> terrainOffset (moveCar s)"
proof -
  have "car_x (car s) + contactSpeed s - canvas_width s * (4 / 10)
          \<le> seg_x (last (terrain s)) - terrainOffset s + 100"
    using assms contactSpeed_upper [of s] by (auto simp: windowInv_def max_def split: if_splits)
  moreover have "0 \<le> seg_x (last (terrain s)) - terrainOffset s + 100"
    using assms by (simp add: windowInv_def)
  ultimately show "terrainOffset (moveCar s) - 100 \<le> seg_x (last (terrain s))"
    by (simp add: moveCar_scroll)
  show "terrainOffset s \<le> terrainOffset (moveCar s)" by (simp add: moveCar_scroll)
qed

lemma shift_keeps_window:
  assumes "sorted_wrt (<) (map seg_x ts)" "ts \<noteq> []" "b \<le> seg_x (last ts)"
  defines "ds \<equiv> dropWhile (\<lambda>p. seg_x p < b) ts"
  shows "ds \<noteq> []" "last ds = last ts" "sorted_wrt (<) (map seg_x ds)"
    "list_all (\<lambda>p. b \<le> seg_x p) ds"
proof -
  have "last ts \<in> set ts" using assms(2) by simp
  then show ne: "ds \<noteq> []"
    using assms(3) unfolding ds_def dropWhile_eq_Nil_conv by force
  have split: "ts = takeWhile (\<lambda>p. seg_x p < b) ts @ ds"
    unfolding ds_def by simp
  have "last ts = last (takeWhile (\<lambda>p. seg_x p < b) ts @ ds)" using split by simp
  then show "last ds = last ts" using ne by simp
  have "sorted_wrt (<) (map seg_x (takeWhile (\<lambda>p. seg_x p < b) ts @ ds))"
    using assms(1) split by simp
  then show s: "sorted_wrt (<) (map seg_x ds)"
    by (simp only: map_append sorted_wrt_append)
  have h: "b \<le> seg_x (hd ds)"
    using ne hd_dropWhile [of "\<lambda>p. seg_x p < b" ts] unfolding ds_def by simp
  obtain d ds' where d: "ds = d # ds'" using ne by (cases ds) simp_all
  with s h show "list_all (\<lambda>p. b \<le> seg_x p) ds"
    by (auto simp: list_all_iff)
qed

lemma extendTerrain_total: "terrain s \<noteq> [] \<Longrightarrow> \<exists>s'. extendTerrain s = Some s'"
proof (induction s rule: extendTerrain.induct)
  case (1 s)
  show ?case
  proof (cases "seg_x (last (terrain s)) < terrainOffset s + canvas_width s + 100")
    case True
    with "1.prems" "1.IH" show ?thesis by (subst extendTerrain.simps) simp
  next
    case False
    with "1.prems" show ?thesis by (subst extendTerrain.simps) simp
  qed
qed

lemma extendTerrain_reaches:
  "extendTerrain s = Some s' \<Longrightarrow>
     terrain s' \<noteq> [] \<and> terrainOffset s' + canvas_width s' + 100 \<le> seg_x (last (terrain s'))"
proof (induction s rule: extendTerrain.induct)
  case (1 s)
  show ?case
  proof (cases "terrain s \<noteq> [] \<and> seg_x (last (terrain s)) < terrainOffset s + canvas_width s + 100")
    case True
    with "1.prems" have "extendTerrain (addTerrainSegment (seg_x (last (terrain s)) + HILL_SEGMENT_WIDTH)
             (real (length (terrain s))) s) = Some s'"
      by (subst (asm) extendTerrain.simps) simp
    with "1.IH" True show ?thesis by blast
  next
    case False
    with "1.prems" show ?thesis
      by (subst (asm) extendTerrain.simps) (auto split: if_splits)
  qed
qed

text \<open>The extension loop keeps what appending a sample one segment after the last
  one keeps.\<close>

lemma extendTerrain_appending:
  assumes step: "\<And>i t. P t \<Longrightarrow> terrain t \<noteq> [] \<Longrightarrow>
      P (addTerrainSegment (seg_x (last (terrain t)) + HILL_SEGMENT_WIDTH) i t)"
  shows "P s \<Longrightarrow> extendTerrain s = Some s' \<Longrightarrow> P s'"
proof (induction s rule: extendTerrain.induct)
  case (1 s)
  show ?case
  proof (cases "terrain s \<noteq> [] \<and> seg_x (last (terrain s)) < terrainOffset s + canvas_width s + 100")
    case True
    with "1.prems" have "extendTerrain (addTerrainSegment (seg_x (last (terrain s)) + HILL_SEGMENT_WIDTH)
             (real (length (terrain s))) s) = Some s'"
      by (subst (asm) extendTerrain.simps) simp
    moreover have "P (addTerrainSegment (seg_x (last (terrain s)) + HILL_SEGMENT_WIDTH)
             (real (length (terrain s))) s)"
      using "1.prems"(1) True by (intro step) simp_all
    ultimately show ?thesis using "1.IH" True by blast
  next
    case False
    with "1.prems" show ?thesis
      by (subst (asm) extendTerrain.simps) (auto split: if_splits)
  qed
qed

lemma ascending_le_last:
  fixes xs :: "real list"
  assumes "sorted_wrt (<) xs" "x \<in> set xs"
  shows "x \<le> last xs"
  using assms
proof (induction xs)
  case Nil
  then show ?case by simp
next
  case (Cons a xs)
  show ?case
  proof (cases "xs = []")
    case True
    with Cons.prems show ?thesis by simp
  next
    case False
    then have l: "last xs \<in> set xs" by simp
    show ?thesis
    proof (cases "x = a")
      case True
      from Cons.prems(1) have "\<forall>y \<in> set xs. a < y" by simp
      with l have "a < last xs" by blast
      then show ?thesis using True \<open>xs \<noteq> []\<close> by simp
    next
      case False
      with Cons.prems have "x \<in> set xs" "sorted_wrt (<) xs" by simp_all
      with Cons.IH \<open>xs \<noteq> []\<close> show ?thesis by simp
    qed
  qed
qed

lemma append_keeps_window:
  assumes "ts \<noteq> []" "sorted_wrt (<) (map seg_x ts)" "list_all (\<lambda>p. b \<le> seg_x p) ts"
    "map seg_x ts' = map seg_x ts @ [seg_x (last ts) + HILL_SEGMENT_WIDTH]"
  shows "sorted_wrt (<) (map seg_x ts') \<and> list_all (\<lambda>p. b \<le> seg_x p) ts'"
proof -
  have ub: "\<forall>x \<in> set (map seg_x ts). x \<le> seg_x (last ts)"
    using ascending_le_last [OF assms(2)] assms(1) by (simp add: last_map)
  have lb: "b \<le> seg_x (last ts)" using assms(1,3) by (auto simp: list_all_iff)
  have "sorted_wrt (<) (map seg_x ts')"
    using assms(2) ub by (auto simp: assms(4) sorted_wrt_append HILL_SEGMENT_WIDTH_def)
  moreover have "\<forall>x \<in> set (map seg_x ts'). b \<le> x"
    using assms(3) lb by (auto simp: assms(4) list_all_iff HILL_SEGMENT_WIDTH_def)
  then have "list_all (\<lambda>p. b \<le> seg_x p) ts'" by (auto simp: list_all_iff)
  ultimately show ?thesis ..
qed

lemma updateTerrain_window:
  assumes "0 \<le> canvas_width s" "terrain s \<noteq> []" "sorted_wrt (<) (map seg_x (terrain s))"
    "terrainOffset s - 100 \<le> seg_x (last (terrain s))"
    "car_x (car s) \<le> max (canvas_width s * (4 / 10)) 50"
  shows "\<exists>s'. updateTerrain s = Some s' \<and> windowInv s'"
proof -
  let ?b = "terrainOffset s - 100"
  let ?s0 = "s\<lparr>terrain := dropWhile (\<lambda>p. seg_x p < ?b) (terrain s)\<rparr>"
  let ?P = "\<lambda>t::game. terrain t \<noteq> [] \<and> sorted_wrt (<) (map seg_x (terrain t)) \<and>
              list_all (\<lambda>p. ?b \<le> seg_x p) (terrain t) \<and>
              terrainOffset t = terrainOffset s \<and> canvas_width t = canvas_width s \<and> car t = car s"
  note sh = shift_keeps_window [OF assms(3,2,4)]
  have p0: "?P ?s0" using sh by simp
  then obtain s1 where e: "extendTerrain ?s0 = Some s1"
    using extendTerrain_total [of ?s0] by auto
  have p1: "?P s1"
  proof (rule extendTerrain_appending [where P = ?P, OF _ p0 e])
    fix i and t :: game
    assume t: "?P t" "terrain t \<noteq> []"
    let ?t' = "addTerrainSegment (seg_x (last (terrain t)) + HILL_SEGMENT_WIDTH) i t"
    have "sorted_wrt (<) (map seg_x (terrain ?t')) \<and> list_all (\<lambda>p. ?b \<le> seg_x p) (terrain ?t')"
      using t by (intro append_keeps_window [of "terrain t"]) simp_all
    then show "?P ?t'" using t by simp
  qed
  from extendTerrain_reaches [OF e]
  have r: "terrainOffset s1 + canvas_width s1 + 100 \<le> seg_x (last (terrain s1))" by simp
  let ?s' = "s1\<lparr>bridges := filter (\<lambda>b. terrainOffset s1 - 200 < endX b) (bridges s1)\<rparr>"
  have "updateTerrain s = Some ?s'" by (simp add: updateTerrain_def e)
  moreover have "windowInv ?s'"
    using p1 r assms(1,5) by (simp add: windowInv_def)
  ultimately show ?thesis by blast
qed

lemma windowInv_cong:
  assumes "terrain t = terrain s" "terrainOffset t = terrainOffset s"
    "canvas_width t = canvas_width s" "car t = car s"
  shows "windowInv t = windowInv s"
  by (simp add: windowInv_def assms)

lemma gameLoop_window:
  assumes "windowInv s"
  shows "\<exists>s'. gameLoop now s = Some s' \<and> windowInv s'"
proof (cases "gameState s = Playing")
  case False
  with assms show ?thesis by (simp add: gameLoop_not_playing)
next
  case True
  let ?p = "updatePhysics s"
  have f: "terrain ?p = terrain s" "canvas_width ?p = canvas_width s"
    "terrainOffset ?p = terrainOffset (moveCar s)" "car ?p = car (moveCar s)"
    by (simp_all add: updatePhysics_def)
  have "\<exists>s1. updateTerrain ?p = Some s1 \<and> windowInv s1"
  proof (rule updateTerrain_window)
    show "0 \<le> canvas_width ?p" "terrain ?p \<noteq> []" "sorted_wrt (<) (map seg_x (terrain ?p))"
      using assms by (simp_all add: f windowInv_def)
    show "terrainOffset ?p - 100 \<le> seg_x (last (terrain ?p))"
      using moveCar_window(1) [OF assms] by (simp add: f)
    show "car_x (car ?p) \<le> max (canvas_width ?p * (4 / 10)) 50"
      using moveCar_car_x [of s] by (simp add: f)
  qed
  then obtain s1 where u: "updateTerrain ?p = Some s1" and w: "windowInv s1" by blast
  let ?s' = "updateBackground (updateLevel (updateParticles (updateBoost now (checkPickups now s1))))"
  have "windowInv ?s' = windowInv s1" by (rule windowInv_cong) simp_all
  moreover have "gameLoop now s = Some ?s'" using True u by (simp add: gameLoop_def)
  ultimately show ?thesis using w by simp
qed

lemma ticks_window:
  assumes "windowInv s"
  shows "\<exists>s'. ticks inps s = Some s' \<and> windowInv s'"
  using assms
proof (induction inps arbitrary: s)
  case Nil
  then show ?case by simp
next
  case (Cons inp inps)
  have "windowInv (s\<lparr>keys := fst inp\<rparr>) = windowInv s" by (rule windowInv_cong) simp_all
  with Cons.prems obtain s1 where g: "gameLoop (snd inp) (s\<lparr>keys := fst inp\<rparr>) = Some s1"
    and w: "windowInv s1"
    using gameLoop_window [of "s\<lparr>keys := fst inp\<rparr>" "snd inp"] by auto
  from Cons.IH [OF w] g show ?case by (simp add: tick_def)
qed

text \<open>The initial window drawn by \<open>generateTerrain\<close>.\<close>

lemma generate_fold_xs:
  "map seg_x (terrain (fold (\<lambda>i. addTerrainSegment (real i * HILL_SEGMENT_WIDTH) (real i)) is s))
     = map seg_x (terrain s) @ map (\<lambda>i. real i * HILL_SEGMENT_WIDTH) is"
  by (induction "is" arbitrary: s) simp_all

lemma generateTerrain_frame [simp]:
  "terrainOffset (generateTerrain s) = terrainOffset s"
  "canvas_width (generateTerrain s) = canvas_width s"
  "car (generateTerrain s) = car s"
  "gameState (generateTerrain s) = gameState s"
  "currentLevel (generateTerrain s) = currentLevel s"
  "fuel (generateTerrain s) = fuel s"
  by (simp_all add: generateTerrain_def Let_def consume_def fold_keeps)

lemma generateTerrain_xs:
  "map seg_x (terrain (generateTerrain s))
     = map (\<lambda>i. real i * HILL_SEGMENT_WIDTH) [0 ..< numSegments s]"
  by (simp add: generateTerrain_def Let_def consume_def generate_fold_xs numSegments_def)

lemma resetRun_fields [simp]:
  "canvas_width (resetRun s) = canvas_width s"
  "terrainOffset (resetRun s) = 0"
  "car_x (car (resetRun s)) = 200"
  "gameState (resetRun s) = Playing"
  "fuel (resetRun s) = INITIAL_FUEL"
  "currentLevel (resetRun s) = 1"
  by (simp_all add: resetRun_def)

lemma generateTerrain_window:
  assumes "0 \<le> canvas_width s"
  shows "windowInv (generateTerrain (resetRun s))"
proof -
  let ?g = "generateTerrain (resetRun s)"
  define w where "w = canvas_width s"
  define n where "n = numSegments (resetRun s)"
  define c where "c = \<lceil>w / 30\<rceil>"
  have c0: "0 \<le> c" using assms by (simp add: c_def w_def)
  have n: "n = nat (c + 10)" by (simp add: n_def numSegments_def c_def w_def HILL_SEGMENT_WIDTH_def)
  then have npos: "0 < n" using c0 by simp
  have xs: "map seg_x (terrain ?g) = map (\<lambda>i. real i * 30) [0 ..< n]"
    by (simp add: generateTerrain_xs n_def HILL_SEGMENT_WIDTH_def)
  have ne: "terrain ?g \<noteq> []"
  proof
    assume "terrain ?g = []"
    then have "map seg_x (terrain ?g) = []" by simp
    with xs npos show False by simp
  qed
  have so: "sorted_wrt (<) (map seg_x (terrain ?g))"
    unfolding xs by (simp add: sorted_wrt_map sorted_wrt_iff_nth_less)
  have lo: "\<forall>x \<in> set (map seg_x (terrain ?g)). - 100 \<le> x"
    unfolding xs by auto
  have "seg_x (last (terrain ?g)) = last (map seg_x (terrain ?g))"
    using ne by (simp add: last_map)
  also have "\<dots> = real (n - 1) * 30"
    unfolding xs using npos by (simp add: last_map)
  also have "real (n - 1) = of_int c + 9"
    using c0 n by (simp add: of_nat_diff nat_add_distrib)
  finally have la: "seg_x (last (terrain ?g)) = (of_int c + 9) * 30" .
  have "w / 30 \<le> of_int c" by (simp add: c_def)
  then have hi: "w + 270 \<le> seg_x (last (terrain ?g))" by (simp add: la)
  have "list_all (\<lambda>p. terrainOffset ?g - 100 \<le> seg_x p) (terrain ?g)"
    using lo by (simp add: list_all_iff)
  then show ?thesis
    using assms ne so hi by (simp add: windowInv_def w_def)
qed

text \<open>
  C3. From the window that \<open>generateTerrain\<close> draws at the start of a run on a canvas
  of non-negative width, every sequence of ticks runs to the end without the frame
  aborting, and after it the last sample of the terrain buffer has
  \<open>worldX \<ge> terrainOffset + canvas.width + 100\<close> (hence also
  \<open>\<ge> terrainOffset + canvas.width + 100 - HILL_SEGMENT_WIDTH\<close>), no sample has
  \<open>worldX < terrainOffset - 100\<close>, and the buffer is strictly ascending. The same
  holds from any state that satisfies \<open>windowInv\<close>.
\<close>

theorem window_bounds:
  assumes "0 \<le> canvas_width s0"
  shows "windowInv (generateTerrain (resetRun s0)) \<and>
         (\<forall>s inps. windowInv s \<longrightarrow>
            (\<exists>s'. ticks inps s = Some s' \<and> windowInv s' \<and> terrain s' \<noteq> [] \<and>
               terrainOffset s' + canvas_width s' + 100 - HILL_SEGMENT_WIDTH
                 \<le> seg_x (last (terrain s')) \<and>
               (\<forall>p \<in> set (terrain s'). \<not> seg_x p < terrainOffset s' - 100) \<and>
               sorted_wrt (<) (map seg_x (terrain s'))))"
proof (intro conjI allI impI)
  show "windowInv (generateTerrain (resetRun s0))"
    using assms by (rule generateTerrain_window)
next
  fix s :: game and inps
  assume "windowInv s"
  then obtain s' where t: "ticks inps s = Some s'" and w: "windowInv s'"
    using ticks_window by blast
  have "terrain s' \<noteq> []" "sorted_wrt (<) (map seg_x (terrain s'))"
    "terrainOffset s' + canvas_width s' + 100 - HILL_SEGMENT_WIDTH \<le> seg_x (last (terrain s'))"
    "\<forall>p \<in> set (terrain s'). \<not> seg_x p < terrainOffset s' - 100"
    using w by (auto simp: windowInv_def list_all_iff HILL_SEGMENT_WIDTH_def)
  with t w show "\<exists>s'. ticks inps s = Some s' \<and> windowInv s' \<and> terrain s' \<noteq> [] \<and>
               terrainOffset s' + canvas_width s' + 100 - HILL_SEGMENT_WIDTH
                 \<le> seg_x (last (terrain s')) \<and>
               (\<forall>p \<in> set (terrain s'). \<not> seg_x p < terrainOffset s' - 100) \<and>
               sorted_wrt (<) (map seg_x (terrain s'))"
    by blast
qed

theorem window_bounds_witness:
  "0 \<le> canvas_width (initialGame 1200 600 (\<lambda>i. 1 / 2)) \<and>
   windowInv (generateTerrain (resetRun (initialGame 1200 600 (\<lambda>i. 1 / 2)))) \<and>
   (\<exists>s'. ticks [(idle, 0), (pressForward, 16), (pressForward, 33)]
            (generateTerrain (resetRun (initialGame 1200 600 (\<lambda>i. 1 / 2)))) = Some s' \<and>
      terrain s' \<noteq> [] \<and>
      terrainOffset s' + canvas_width s' + 100 - HILL_SEGMENT_WIDTH \<le> seg_x (last (terrain s')) \<and>
      list_all (\<lambda>p. \<not> seg_x p < terrainOffset s' - 100) (terrain s'))"
proof -
  have h: "0 \<le> canvas_width (initialGame 1200 600 (\<lambda>i. 1 / 2))"
    by (simp add: initialGame_def)
  note t = window_bounds [OF h]
  from t have w: "windowInv (generateTerrain (resetRun (initialGame 1200 600 (\<lambda>i. 1 / 2))))"
    by simp
  from t w obtain s' where
    "ticks [(idle, 0), (pressForward, 16), (pressForward, 33)]
            (generateTerrain (resetRun (initialGame 1200 600 (\<lambda>i. 1 / 2)))) = Some s'"
    "terrain s' \<noteq> []"
    "terrainOffset s' + canvas_width s' + 100 - HILL_SEGMENT_WIDTH \<le> seg_x (last (terrain s'))"
    "\<forall>p \<in> set (terrain s'). \<not> seg_x p < terrainOffset s' - 100"
    by blast
  then show ?thesis using h w by (auto simp: list_all_iff)
qed

section \<open>Bridge spacing\<close>





















end
